theory Spec2Isabelle
  imports Complex_Main
begin

section \<open>FemGmshTools: data model\<close>

text \<open>
  A shallow embedding of \<^verbatim>\<open>src/Mod/Fem/FemGmshTools.py\<close>, the class that turns a
  mesh object of the document into a control script of the external mesher, runs the
  mesher and reads the mesh back.

  Conventions of the embedding.
  \<^item> Python strings are \<open>string\<close>; Python floats are idealised as exact \<open>real\<close>
    numbers (rounding, overflow and the difference between the integer \<open>0\<close> and the
    float \<open>0.0\<close> are outside the model); \<open>Units.Quantity(x).Value\<close> is the number itself.
  \<^item> An exception is a value of type \<open>error\<close>; a method that can raise returns its
    outcome together with the state reached when it returned or raised.
  \<^item> Everything the class asks of the host application, the operating system or the
    helper module \<open>FemMeshTools\<close> is a field of the record \<open>host\<close>.
  \<^item> Output is a log of events kept in the state: every call of
    \<open>FreeCAD.Console.PrintError\<close> and \<open>PrintLog\<close>, the \<open>print\<close> calls that
    report an error or a warning, and the effects on files, preferences and processes.
    Progress messages printed to standard output are not part of the model.
\<close>

datatype error =
    KeyError string
  | IndexError
  | AttributeError string
  | UnboundLocalError string
  | PyException string
  | HostError string

datatype event =
    Print string
  | PrintError string
  | PrintLog string
  | SetString string string
  | ExportBrep string
  | WriteFile string "string list"
  | Popen "string list"
  | FemRead string
  | Move string string

type_synonym fem_mesh = string

text \<open>The part to mesh: \<open>part_obj.Name\<close>, \<open>.Label\<close>, \<open>.Shape.ShapeType\<close> and, when the
  object has a \<open>Proxy\<close> attribute, \<open>.Proxy.Type\<close>.\<close>

record part =
  part_Name :: string
  part_Label :: string
  ShapeType :: string
  ProxyType :: "string option"

text \<open>A reference \<open>sub\<close> is a pair: \<open>sub[0]\<close>, a document object (here its name), and
  \<open>sub[1]\<close>, the names of its elements.\<close>

type_synonym reference = "string \<times> string list"

record mesh_region =
  mr_Name :: string
  CharacteristicLength :: real
  mr_References :: "reference list"

record mesh_boundary_layer =
  bl_Name :: string
  MinimumThickness :: real
  GrowthRate :: real
  NumberOfLayers :: int
  bl_References :: "reference list"

text \<open>The mesh object. The five flags are attributes that older documents lack:
  \<open>None\<close> is \<open>hasattr\<close> returning false.\<close>

record mesh_obj =
  Part :: part
  CharacteristicLengthMax :: real
  CharacteristicLengthMin :: real
  GeometryTolerance :: real
  ElementOrder :: string
  ElementDimension :: string
  Algorithm2D :: string
  OutputFormat :: string
  MeshRegionList :: "mesh_region list"
  MeshBoundaryLayerList :: "mesh_boundary_layer list"
  MeshGroupList :: "string list"
  RecombineAll :: "bool option"
  OptimizeStd :: "bool option"
  OptimizeNetgen :: "bool option"
  HighOrderOptimize :: "bool option"
  CoherenceMesh :: "bool option"
  FemMesh :: fem_mesh

text \<open>The value of an entry of a boundary layer setting: a number or a list of
  element names. A setting is a dictionary, kept in insertion order.\<close>

datatype setting_value = Num real | Elems "string list"

type_synonym setting = "(string \<times> setting_value) list"

text \<open>What the external process did: it could not be started, or it ran and left an
  exit code, its standard output and its standard error.\<close>

datatype process = NotStarted | Exited int string string

record host =
  system :: string
  gettempdir :: string
  getHomePath :: string
  UseStandardGmshLocation :: bool
  gmshBinaryPath :: string
  UserSchema :: int
  which_gmsh :: process
  isSame :: "string \<Rightarrow> bool"
  find_element_in_shape :: "string \<Rightarrow> string \<Rightarrow> string option"
  get_vertexes_by_element :: "string \<Rightarrow> int list"
  get_mesh_group_elements :: "string \<Rightarrow> (string \<times> string list) list"
  get_analysis_group_elements :: "string \<Rightarrow> (string \<times> string list) list"
  exportBrep :: "string \<Rightarrow> error option"
  open_geo :: "string \<Rightarrow> error option"
  run_gmsh :: "string list \<Rightarrow> process"
  Fem_read :: "string \<Rightarrow> error + fem_mesh"
  shutil_move :: "string \<Rightarrow> string \<Rightarrow> error option"
  str_float :: "real \<Rightarrow> string"

text \<open>The object itself (\<open>self\<close>). An attribute that \<open>__init__\<close> does not create
  and a later stage assigns holds an empty value until then; the two file paths that
  \<open>read_and_set_new_mesh\<close> deletes, the path of the script, the binary and
  \<open>gmsh_command\<close> (which no method of the class assigns) are \<open>None\<close> while absent.\<close>

record tools =
  mesh_obj :: mesh_obj
  analysis :: "string option"
  part_obj :: part
  clmax :: real
  clmin :: real
  geotol :: real
  order :: string
  dimension :: string
  algorithm2D :: string
  algorithm3D :: string
  temp_file_geometry :: "string option"
  mesh_name :: string
  temp_file_mesh :: "string option"
  temp_file_geo :: "string option"
  gmsh_bin :: "string option"
  gmsh_command :: "string option"
  group_elements :: "(string \<times> string list) list"
  ele_length_map :: "(string \<times> real) list"
  ele_node_map :: "(string \<times> int list) list"
  bl_setting_list :: "setting list"
  bl_boundary_list :: "string list"
  error_flag :: bool
  out :: "event list"

definition nl :: string where
  "nl = [CHR 0x0A]"

definition emit :: "event \<Rightarrow> tools \<Rightarrow> tools" where
  "emit e s = s\<lparr>out := out s @ [e]\<rparr>"

section \<open>Parameter resolution: \<open>__init__\<close> and \<open>get_dimension\<close>\<close>

definition resolve_order :: "string \<Rightarrow> string \<times> event list" where
  "resolve_order o_raw =
     (if o_raw = ''1st'' then (''1'', [])
      else if o_raw = ''2nd'' then (''2'', [])
      else (o_raw, [Print ''Error in order'']))"

definition resolve_algorithm2D :: "string \<Rightarrow> string" where
  "resolve_algorithm2D algo2D =
     (if algo2D = ''Automatic'' then ''2''
      else if algo2D = ''MeshAdapt'' then ''1''
      else if algo2D = ''Delaunay'' then ''5''
      else if algo2D = ''Frontal'' then ''6''
      else if algo2D = ''BAMG'' then ''7''
      else if algo2D = ''DelQuad'' then ''8''
      else ''2'')"

definition resolve_algorithm3D :: "string \<Rightarrow> string" where
  "resolve_algorithm3D algo3D =
     (if algo3D = ''Automatic'' then ''1''
      else if algo3D = ''Delaunay'' then ''1''
      else if algo3D = ''New Delaunay'' then ''2''
      else if algo3D = ''Frontal'' then ''4''
      else if algo3D = ''Frontal Delaunay'' then ''5''
      else if algo3D = ''Frontal Hex'' then ''6''
      else if algo3D = ''MMG3D'' then ''7''
      else if algo3D = ''R-tree'' then ''9''
      else ''1'')"

text \<open>\<open>__init__(self, gmsh_mesh_obj, analysis)\<close>; the analysis is the name of the
  analysis object, or \<open>None\<close>. The local \<open>algo3D\<close> is read from
  \<open>self.mesh_obj.Algorithm2D\<close>, as in the source (line 102).\<close>

definition init :: "mesh_obj \<Rightarrow> string option \<Rightarrow> tools" where
  "init gmsh_mesh_obj an =
     \<lparr> mesh_obj = gmsh_mesh_obj,
       analysis = an,
       part_obj = Part gmsh_mesh_obj,
       clmax = (if CharacteristicLengthMax gmsh_mesh_obj = 0 then 10 ^ 22
                else CharacteristicLengthMax gmsh_mesh_obj),
       clmin = CharacteristicLengthMin gmsh_mesh_obj,
       geotol = (if GeometryTolerance gmsh_mesh_obj = 0 then 1 / 10 ^ 8
                 else GeometryTolerance gmsh_mesh_obj),
       order = fst (resolve_order (ElementOrder gmsh_mesh_obj)),
       dimension = ElementDimension gmsh_mesh_obj,
       algorithm2D = resolve_algorithm2D (Algorithm2D gmsh_mesh_obj),
       algorithm3D = resolve_algorithm3D (Algorithm2D gmsh_mesh_obj),
       temp_file_geometry = None,
       mesh_name = [],
       temp_file_mesh = None,
       temp_file_geo = None,
       gmsh_bin = None,
       gmsh_command = None,
       group_elements = [],
       ele_length_map = [],
       ele_node_map = [],
       bl_setting_list = [],
       bl_boundary_list = [],
       error_flag = False,
       out = snd (resolve_order (ElementOrder gmsh_mesh_obj)) \<rparr>"

text \<open>\<open>get_dimension\<close>: no branch raises; a vertex and an unknown shape type give
  dimension \<open>'0'\<close> and a message on the error console, an unknown
  \<open>ElementDimension\<close> is kept as it is.\<close>

definition get_dimension :: "tools \<Rightarrow> tools" where
  "get_dimension s =
     (if dimension s = ''From Shape'' then
        (let shty = ShapeType (part_obj s) in
         if shty = ''Solid'' \<or> shty = ''CompSolid'' then s\<lparr>dimension := ''3''\<rparr>
         else if shty = ''Face'' \<or> shty = ''Shell'' then s\<lparr>dimension := ''2''\<rparr>
         else if shty = ''Edge'' \<or> shty = ''Wire'' then s\<lparr>dimension := ''1''\<rparr>
         else if shty = ''Vertex'' then
           (emit (PrintError (''You can not mesh a Vertex.'' @ nl)) s)\<lparr>dimension := ''0''\<rparr>
         else if shty = ''Compound'' then
           (emit (PrintLog (''  Found a Compound. Since it could contain any kind of shape dimension 3 is used.'' @ nl)) s)
             \<lparr>dimension := ''3''\<rparr>
         else
           emit (PrintError ''Could not retrive Dimension from shape type. Please choose dimension.'')
             (s\<lparr>dimension := ''0''\<rparr>))
      else if dimension s = ''3D'' then s\<lparr>dimension := ''3''\<rparr>
      else if dimension s = ''2D'' then s\<lparr>dimension := ''2''\<rparr>
      else if dimension s = ''1D'' then s\<lparr>dimension := ''1''\<rparr>
      else emit (Print ''Error in dimension'') s)"

section \<open>Reference extraction: regions\<close>

text \<open>An element that belongs to another shape is looked up in the shape to mesh
  (\<open>FemMeshTools.get_element\<close> followed by \<open>FemMeshTools.find_element_in_shape\<close>, one
  host function here; \<open>None\<close> is any result that Python takes for false). When the
  search fails the message is printed and the element keeps its name.\<close>

definition find_elems :: "host \<Rightarrow> string \<Rightarrow> bool \<Rightarrow> string \<Rightarrow> string \<Rightarrow> string \<times> event list" where
  "find_elems h sub0 search_ele_in_shape_to_mesh msg elems =
     (if search_ele_in_shape_to_mesh then
        (case find_element_in_shape h sub0 elems of
           Some found_element \<Rightarrow> (found_element, [])
         | None \<Rightarrow> (elems, [PrintError msg]))
      else (elems, []))"

text \<open>The body of \<open>for elems in sub[1]\<close> of \<open>get_region_data\<close>, on the dictionary
  \<open>ele_length_map\<close> (an association list in insertion order) and the log.\<close>

definition region_elem ::
  "host \<Rightarrow> mesh_region \<Rightarrow> string \<Rightarrow> bool \<Rightarrow> (string \<times> real) list \<times> event list \<Rightarrow> string
     \<Rightarrow> (string \<times> real) list \<times> event list" where
  "region_elem h mr_obj sub0 search acc elems0 =
     (let (elems, msgs) = find_elems h sub0 search
            (''One element of the meshregion '' @ mr_Name mr_obj
               @ '' could not be found in the Part to mesh. It will be ignored.'' @ nl) elems0;
          m = fst acc; lg = snd acc @ msgs
      in if map_of m elems = None then (m @ [(elems, CharacteristicLength mr_obj)], lg)
         else (m, lg @ [PrintError (''The element '' @ elems @ '' of the meshregion ''
                 @ mr_Name mr_obj @ '' has been added to another mesh region.'' @ nl)]))"

definition region_sub ::
  "host \<Rightarrow> mesh_region \<Rightarrow> (string \<times> real) list \<times> event list \<Rightarrow> reference
     \<Rightarrow> (string \<times> real) list \<times> event list" where
  "region_sub h mr_obj acc sub =
     foldl (region_elem h mr_obj (fst sub) (\<not> isSame h (fst sub))) acc (snd sub)"

definition region_obj ::
  "host \<Rightarrow> (string \<times> real) list \<times> event list \<Rightarrow> mesh_region
     \<Rightarrow> (string \<times> real) list \<times> event list" where
  "region_obj h acc mr_obj =
     (if CharacteristicLength mr_obj \<noteq> 0 then
        (if mr_References mr_obj \<noteq> [] then foldl (region_sub h mr_obj) acc (mr_References mr_obj)
         else (fst acc, snd acc @ [PrintError (''The meshregion: '' @ mr_Name mr_obj
                 @ '' is not used to create the mesh because the reference list is empty.'' @ nl)]))
      else (fst acc, snd acc @ [PrintError (''The meshregion: '' @ mr_Name mr_obj
              @ '' is not used to create the mesh because the CharacteristicLength is 0.0 mm.'' @ nl)]))"

definition split_compound_warning :: "part \<Rightarrow> event list" where
  "split_compound_warning p =
     (if ShapeType p = ''Compound'' \<and> ProxyType p \<noteq> None then
        (if ProxyType p = Some ''FeatureBooleanFragments'' \<or> ProxyType p = Some ''FeatureSlice''
            \<or> ProxyType p = Some ''FeatureXOR''
         then [PrintError (''  The mesh to shape is a boolean split tools Compound and the mesh has mesh region list. GMSH could return unexpected meshes in such circumstances. It is strongly recommended to extract the shape to mesh from the Compound and use this one.'' @ nl)]
         else [])
      else [])"

definition get_region_data :: "host \<Rightarrow> tools \<Rightarrow> tools" where
  "get_region_data h s =
     (if MeshRegionList (mesh_obj s) = [] then s\<lparr>ele_length_map := [], ele_node_map := []\<rparr>
      else
        (let acc = foldl (region_obj h) ([], out s @ split_compound_warning (part_obj s))
                     (MeshRegionList (mesh_obj s))
         in s\<lparr>ele_length_map := fst acc,
               ele_node_map := map (\<lambda>(eleml, l). (eleml, get_vertexes_by_element h eleml)) (fst acc),
               out := snd acc\<rparr>))"

section \<open>Reference extraction: boundary layers\<close>

definition py_sum :: "real list \<Rightarrow> real" where
  "py_sum xs = foldl (+) 0 xs"

definition py_range :: "int \<Rightarrow> nat list" where
  "py_range n = [0..<nat n]"

text \<open>The body of \<open>for elems in sub[1]\<close> of \<open>get_boundary_layer_data\<close>, on
  \<open>belem_list\<close>, \<open>self.bl_boundary_list\<close> and the log.\<close>

definition bl_elem ::
  "host \<Rightarrow> mesh_boundary_layer \<Rightarrow> string \<Rightarrow> bool \<Rightarrow> string list \<times> string list \<times> event list
     \<Rightarrow> string \<Rightarrow> string list \<times> string list \<times> event list" where
  "bl_elem h mr_obj sub0 search acc elems0 =
     (let (elems, msgs) = find_elems h sub0 search
            (''One element of the mesh boudary layer '' @ bl_Name mr_obj
               @ '' could not be found in the Part to mesh. It will be ignored.'' @ nl) elems0;
          belem_list = fst acc; bl = fst (snd acc); lg = snd (snd acc) @ msgs
      in if elems \<notin> set bl then (belem_list @ [elems], bl @ [elems], lg)
         else (belem_list, bl, lg @ [PrintError (''The element '' @ elems
                 @ '' of the mesh boundary layer '' @ bl_Name mr_obj
                 @ '' has been added to another mesh  boudary layer.'' @ nl)]))"

definition bl_sub ::
  "host \<Rightarrow> mesh_boundary_layer \<Rightarrow> string list \<times> string list \<times> event list \<Rightarrow> reference
     \<Rightarrow> string list \<times> string list \<times> event list" where
  "bl_sub h mr_obj acc sub =
     foldl (bl_elem h mr_obj (fst sub) (\<not> isSame h (fst sub))) acc (snd sub)"

text \<open>The dictionary \<open>setting\<close> of one boundary layer, its keys in the order of the
  assignments; \<open>cl\<close> is \<open>self.clmax\<close> and \<open>dimn\<close> is \<open>self.dimension\<close>.\<close>

definition bl_setting :: "real \<Rightarrow> string \<Rightarrow> mesh_boundary_layer \<Rightarrow> string list \<Rightarrow> setting \<times> event list" where
  "bl_setting cl dimn mr_obj belem_list =
     (let hwall_n = MinimumThickness mr_obj;
          ratio = GrowthRate mr_obj;
          thickness = py_sum (map (\<lambda>i. hwall_n * ratio ^ i) (py_range (NumberOfLayers mr_obj)));
          hfar = (if cl > thickness * 0.8 \<and> cl < thickness * 1.6 then cl else thickness);
          setting = [(''hwall_n'', Num hwall_n), (''ratio'', Num ratio),
                     (''thickness'', Num thickness), (''hwall_t'', Num thickness),
                     (''hfar'', Num hfar)]
      in if dimn = ''2'' then (setting @ [(''EdgesList'', Elems belem_list)], [])
         else if dimn = ''3'' then (setting @ [(''FacesList'', Elems belem_list)], [])
         else (setting, [PrintError ''boundary layer is only  supported for 2D and 3D mesh'']))"

text \<open>The body of \<open>for mr_obj in self.mesh_obj.MeshBoundaryLayerList\<close>, on
  \<open>self.bl_setting_list\<close>, \<open>self.bl_boundary_list\<close> and the log.\<close>

definition bl_obj ::
  "host \<Rightarrow> real \<Rightarrow> string \<Rightarrow> setting list \<times> string list \<times> event list \<Rightarrow> mesh_boundary_layer
     \<Rightarrow> setting list \<times> string list \<times> event list" where
  "bl_obj h cl dimn acc mr_obj =
     (let sl = fst acc; bl = fst (snd acc); lg = snd (snd acc) in
      if MinimumThickness mr_obj \<noteq> 0 \<and> MinimumThickness mr_obj > 0 then
        (if bl_References mr_obj \<noteq> [] then
           (let r = foldl (bl_sub h mr_obj) ([], bl, lg) (bl_References mr_obj);
                st = bl_setting cl dimn mr_obj (fst r)
            in (sl @ [fst st], fst (snd r), snd (snd r) @ snd st))
         else (sl, bl, lg @ [PrintError (''The mesh boundary layer: '' @ bl_Name mr_obj
                 @ '' is not used to create the mesh because the reference list is empty.'' @ nl)]))
      else (sl, bl, lg @ [PrintError (''The mesh boundary layer: '' @ bl_Name mr_obj
              @ '' is not used to create the mesh because the min thickness is 0.0 mm.'' @ nl)]))"

definition get_boundary_layer_data :: "host \<Rightarrow> tools \<Rightarrow> tools" where
  "get_boundary_layer_data h s =
     (if MeshBoundaryLayerList (mesh_obj s) = [] then s\<lparr>bl_setting_list := [], bl_boundary_list := []\<rparr>
      else
        (let lg0 = out s @ (if ShapeType (part_obj s) = ''Compound''
                     then [PrintError (''GMSH could return unexpected meshes for a boolean split tools Compound. It is strongly recommended to extract the shape to mesh from the Compound and use this one.'' @ nl)]
                     else []);
             acc = foldl (bl_obj h (clmax s) (dimension s)) ([], [], lg0)
                     (MeshBoundaryLayerList (mesh_obj s))
         in s\<lparr>bl_setting_list := fst acc, bl_boundary_list := fst (snd acc),
               out := snd (snd acc)\<rparr>))"

section \<open>Reference extraction: groups\<close>

text \<open>One dictionary of new groups merged into \<open>self.group_elements\<close>: a name that is
  there already keeps its elements.\<close>

definition add_groups ::
  "(string \<times> string list) list \<times> event list \<Rightarrow> (string \<times> string list) list
     \<Rightarrow> (string \<times> string list) list \<times> event list" where
  "add_groups acc new_group_elements =
     foldl (\<lambda>(g, lg) (ge, els).
              if map_of g ge = None then (g @ [(ge, els)], lg)
              else (g, lg @ [PrintError (''  A group with this name exists already.'' @ nl)]))
       acc new_group_elements"

definition get_group_data :: "host \<Rightarrow> tools \<Rightarrow> tools" where
  "get_group_data h s =
     (let acc1 = foldl (\<lambda>acc mg. add_groups acc (get_mesh_group_elements h mg)) ([], out s)
                   (MeshGroupList (mesh_obj s));
          acc2 = (case analysis s of
                    Some a \<Rightarrow> add_groups acc1 (get_analysis_group_elements h a)
                  | None \<Rightarrow> acc1)
      in s\<lparr>group_elements := fst acc2, out := snd acc2\<rparr>)"

section \<open>Strings\<close>

definition startswith :: "string \<Rightarrow> string \<Rightarrow> bool" where
  "startswith s p = (take (length p) s = p)"

definition lstrip :: "string \<Rightarrow> string \<Rightarrow> string" where
  "lstrip s chars = dropWhile (\<lambda>c. c \<in> set chars) s"

definition rstrip :: "string \<Rightarrow> string \<Rightarrow> string" where
  "rstrip s chars = rev (dropWhile (\<lambda>c. c \<in> set chars) (rev s))"

fun str_nat :: "nat \<Rightarrow> string" where
  "str_nat n = (if n < 10 then [''0123456789'' ! n] else str_nat (n div 10) @ [''0123456789'' ! (n mod 10)])"

definition str_int :: "int \<Rightarrow> string" where
  "str_int i = (if i < 0 then ''-'' @ str_nat (nat (- i)) else str_nat (nat i))"

definition then_lines :: "error + string list \<Rightarrow> error + string list \<Rightarrow> error + string list" where
  "then_lines a b =
     (case a of Inl e \<Rightarrow> Inl e
      | Inr xs \<Rightarrow> (case b of Inl e \<Rightarrow> Inl e | Inr ys \<Rightarrow> Inr (xs @ ys)))"

section \<open>Script emission\<close>

subsection \<open>\<open>write_group\<close>\<close>

text \<open>The loop variables of \<open>write_group\<close>: the lines written so far, the two
  counters and the messages printed.\<close>

record group_acc =
  lines :: "string list"
  domains :: nat
  boundaries :: nat
  msgs :: "event list"

text \<open>The body of \<open>for group in self.group_elements\<close>. \<open>gdata[0]\<close> raises
  \<open>IndexError\<close> on a group without elements. In the last two branches \<open>ele_nr\<close>
  stays empty, so \<open>physical_type\<close> is not read and nothing is declared.\<close>

definition write_group_step :: "string \<Rightarrow> group_acc \<Rightarrow> string \<times> string list \<Rightarrow> error + group_acc" where
  \<open>write_group_step dimn a g =
     (let group = fst g; gdata = snd g in
      case gdata of
        [] \<Rightarrow> Inl IndexError
      | g0 # _ \<Rightarrow>
          (let (physical_type, ele_nr, a1) =
             (if startswith g0 ''Solid'' then
                (''Volume'', concat (map (\<lambda>ele. lstrip ele ''Solid'' @ '', '') gdata),
                 a\<lparr>domains := (if dimn = ''3'' then domains a + 1 else domains a)\<rparr>)
              else if startswith g0 ''Face'' then
                (''Surface'', concat (map (\<lambda>ele. lstrip ele ''Face'' @ '', '') gdata),
                 a\<lparr>domains := (if dimn = ''2'' then domains a + 1 else domains a),
                   boundaries := (if dimn = ''3'' then boundaries a + 1 else boundaries a)\<rparr>)
              else if startswith g0 ''Edge'' then
                (''Line'', concat (map (\<lambda>ele. lstrip ele ''Edge'' @ '', '') gdata),
                 a\<lparr>boundaries := (if dimn = ''2'' then boundaries a + 1 else boundaries a)\<rparr>)
              else if startswith g0 ''Vertex'' then
                ([], [],
                 a\<lparr>lines := lines a @
                      [''// '' @ group @ '' group data not written. Vertexes group data not supported.'' @ nl],
                   msgs := msgs a @ [Print ''  Groups for Vertexes reference shapes not handeled yet.'']\<rparr>)
              else ([], [], a))
           in Inr (if ele_nr \<noteq> [] then
                     a1\<lparr>lines := lines a1 @
                          [''Physical '' @ physical_type @ ''("'' @ group @ ''") = {''
                             @ rstrip ele_nr '', '' @ ''};'' @ nl]\<rparr>
                   else a1)))\<close>

fun write_group_loop :: "string \<Rightarrow> group_acc \<Rightarrow> (string \<times> string list) list \<Rightarrow> error + group_acc" where
  "write_group_loop dimn a [] = Inr a"
| "write_group_loop dimn a (g # gs) =
     (case write_group_step dimn a g of
        Inl e \<Rightarrow> Inl e
      | Inr a' \<Rightarrow> write_group_loop dimn a' gs)"

definition interior_volume :: string where
  \<open>interior_volume = ''Physical Volume("Interior") = {1};'' @ nl\<close>

definition interior_surface :: string where
  \<open>interior_surface = ''Physical Surface("Interior") = {1};'' @ nl\<close>

text \<open>\<open>write_group\<close>: the lines it writes to the script and the messages it prints.\<close>

definition write_group :: "tools \<Rightarrow> error + string list \<times> event list" where
  "write_group s =
     (case write_group_loop (dimension s)
             \<lparr>lines = (if group_elements s \<noteq> [] then [''// group data '' @ nl] else []),
              domains = 0, boundaries = 0, msgs = []\<rparr>
             (group_elements s) of
        Inl e \<Rightarrow> Inl e
      | Inr a \<Rightarrow>
          Inr (lines a
               @ (if domains a = 0 then
                    (if dimension s = ''3'' then [interior_volume] else [])
                    @ (if dimension s = ''2'' then [interior_surface] else [])
                  else [])
               @ [nl @ nl]
               @ (if analysis s \<noteq> None \<and> OutputFormat (mesh_obj s) = ''I-Deas universal'' then
                    [''// For each group save not only the elements but the nodes too.;'' @ nl,
                     ''Mesh.SaveGroupsOfNodes = 1;'' @ nl,
                     ''// Needed for Group meshing too, because for one material there is no group defined;'' @ nl,
                     ''// Ignore Physical definitions and save all elements, if Mesh.SaveAll = 1;'' @ nl,
                     ''Mesh.SaveAll = 1;'' @ nl,
                     nl @ nl]
                  else []),
               msgs a
               @ (if domains a = 0 then []
                  else [Print ''Warning: no subdomain group data are written, thus subdomain nesh will not be exported''])
               @ (if boundaries a = 0
                  then [Print ''Warning: no boundary group data are written, thus boundary mesh will not be exported'']
                  else [])))"

subsection \<open>\<open>write_boundary_layer\<close>\<close>

text \<open>One entry of a setting. A list of elements is stored under the keys
  \<open>EdgesList\<close> and \<open>FacesList\<close> and a number under every other key, so the test on
  the key in the source is the test on the kind of value here.\<close>

fun setting_line :: "host \<Rightarrow> string \<Rightarrow> string \<times> setting_value \<Rightarrow> string" where
  "setting_line h prefix (k, Elems v) =
     prefix @ ''.'' @ k @ '' = {'' @ rstrip (concat (map (\<lambda>el. drop 4 el @ '', '') v)) '', '' @ '' };'' @ nl"
| "setting_line h prefix (k, Num v) =
     prefix @ ''.'' @ k @ '' = '' @ str_float h v @ '';'' @ nl"

definition field_block :: "host \<Rightarrow> nat \<Rightarrow> setting \<Rightarrow> string list" where
  "field_block h field_number item =
     (let prefix = ''Field['' @ str_nat field_number @ '']'' in
      [prefix @ '' = BoundaryLayer;'' @ nl]
      @ map (setting_line h prefix) item
      @ [''BoundaryLayer Field = '' @ str_nat field_number @ '';'' @ nl,
         ''// end of this boundary layer setup '' @ nl])"

definition write_boundary_layer :: "host \<Rightarrow> tools \<Rightarrow> string list" where
  "write_boundary_layer h s =
     (if length (bl_setting_list s) \<noteq> 0 then
        [''// boundary layer setting'' @ nl]
        @ concat (map (\<lambda>(i, item). field_block h (i + 1) item)
                    (zip [0..<length (bl_setting_list s)] (bl_setting_list s)))
        @ [nl]
      else [''// no boundary layer settings for this mesh'' @ nl])"

subsection \<open>\<open>write_geo\<close>\<close>

definition supported_mesh_output_formats :: "(string \<times> int) list" where
  "supported_mesh_output_formats =
     [(''Gmsh MSH'', 1), (''I-Deas universal'', 2), (''Automatic'', 10), (''STL surface'', 27),
      (''INRIA medit'', 30), (''CGNS'', 32), (''Salome mesh'', 33), (''Abaqus INP'', 39),
      (''Ploy surface'', 42)]"

definition output_format_suffix :: "(string \<times> string) list" where
  "output_format_suffix =
     [(''Gmsh MSH'', ''.msh''), (''I-Deas universal'', ''.unv''), (''Automatic'', ''.msh''),
      (''STL surface'', ''.stl''), (''INRIA medit'', ''.mesh''), (''CGNS'', ''.cgns''),
      (''Salome mesh'', ''med''), (''Abaqus INP'', ''.inp''), (''Ploy surface'', ''.ply2'')]"

text \<open>Reading an attribute that does not exist raises \<open>AttributeError\<close>.\<close>

definition attr :: "string \<Rightarrow> 'a option \<Rightarrow> error + 'a" where
  "attr name v = (case v of None \<Rightarrow> Inl (AttributeError name) | Some x \<Rightarrow> Inr x)"

text \<open>Python's \<open>==\<close> between values of the two types that meet in \<open>write_geo\<close>: a
  string and an integer are never equal.\<close>

datatype pyval = PyStr string | PyInt int

definition py_eq :: "pyval \<Rightarrow> pyval \<Rightarrow> bool" where
  "py_eq a b = (a = b)"

definition length_lines :: "host \<Rightarrow> tools \<Rightarrow> error + string list" where
  "length_lines h s =
     (if ele_length_map s \<noteq> [] then
        then_lines
          (foldl (\<lambda>acc (e, l).
                    then_lines acc
                      (case map_of (ele_node_map s) e of
                         None \<Rightarrow> Inl (KeyError e)
                       | Some ns \<Rightarrow>
                           Inr [''// '' @ e @ nl,
                                ''Characteristic Length { ''
                                  @ rstrip (concat (map (\<lambda>n. str_int (n + 1) @ '', '') ns)) '', ''
                                  @ '' } = '' @ str_float h l @ '';'' @ nl]))
             (Inr [''// Characteristic Length according CharacteristicLengthMap'' @ nl])
             (ele_length_map s))
          (Inr [nl])
      else Inr [])"

definition option_lines :: "host \<Rightarrow> tools \<Rightarrow> string list" where
  "option_lines h s =
     [''// Characteristic Length'' @ nl,
      ''// min, max Characteristic Length'' @ nl,
      ''Mesh.CharacteristicLengthMax = '' @ str_float h (clmax s) @ '';'' @ nl,
      (if length (bl_setting_list s) \<noteq> 0
       then ''Mesh.CharacteristicLengthMin = '' @ str_int 0 @ '';'' @ nl
       else ''Mesh.CharacteristicLengthMin = '' @ str_float h (clmin s) @ '';'' @ nl),
      nl]
     @ (if RecombineAll (mesh_obj s) = Some True
        then [''// other mesh options'' @ nl, ''Mesh.RecombineAll = 1;'' @ nl, nl] else [])
     @ [''// optimize the mesh'' @ nl,
        (if OptimizeStd (mesh_obj s) = Some True
         then ''Mesh.Optimize = 1;'' @ nl else ''Mesh.Optimize = 0;'' @ nl),
        (if OptimizeNetgen (mesh_obj s) = Some True
         then ''Mesh.OptimizeNetgen = 1;'' @ nl else ''Mesh.OptimizeNetgen = 0;'' @ nl),
        (if HighOrderOptimize (mesh_obj s) = Some True
         then ''Mesh.HighOrderOptimize = 1;  // for more HighOrderOptimize parameter check http://gmsh.info/doc/texinfo/gmsh.html'' @ nl
         else ''Mesh.HighOrderOptimize = 0;  // for more HighOrderOptimize parameter check http://gmsh.info/doc/texinfo/gmsh.html'' @ nl),
        nl,
        ''// mesh order'' @ nl,
        ''Mesh.ElementOrder = '' @ order s @ '';'' @ nl,
        nl]"

text \<open>The two algorithm directives. \<open>self.dimension\<close> is a string and the source
  compares it with the integer \<open>3\<close> (line 579).\<close>

definition algorithm_lines :: "tools \<Rightarrow> string list" where
  "algorithm_lines s =
     [''// mesh algorithm, only a few algorithms are usable with 3D boundary layer generation'' @ nl,
      ''// 2D mesh algorithm (1=MeshAdapt, 2=Automatic, 5=Delaunay, 6=Frontal, 7=BAMG, 8=DelQuad)'' @ nl,
      (if length (bl_setting_list s) \<noteq> 0 \<and> py_eq (PyStr (dimension s)) (PyInt 3)
       then ''Mesh.Algorithm = '' @ ''DelQuad'' @ '';'' @ nl
       else ''Mesh.Algorithm = '' @ algorithm2D s @ '';'' @ nl),
      ''// 3D mesh algorithm (1=Delaunay, 2=New Delaunay, 4=Frontal, 5=Frontal Delaunay, 6=Frontal Hex, 7=MMG3D, 9=R-tree)'' @ nl,
      ''Mesh.Algorithm3D = '' @ algorithm3D s @ '';'' @ nl,
      nl]"

definition meshing_lines :: "host \<Rightarrow> tools \<Rightarrow> string list" where
  "meshing_lines h s =
     [''// meshing'' @ nl]
     @ (if CoherenceMesh (mesh_obj s) = Some True then
          [''Geometry.Tolerance = '' @ str_float h (geotol s)
             @ ''; // set gemetrical tolerance (also used for merging nodes)'' @ nl,
           ''Mesh  '' @ dimension s @ '';'' @ nl,
           ''Coherence Mesh; // Remove duplicate vertices'' @ nl]
        else [''Mesh  '' @ dimension s @ '';'' @ nl])
     @ [nl]"

definition output_lines :: "tools \<Rightarrow> error + string list" where
  \<open>output_lines s =
     then_lines
       (Inr [''// output format 1=msh, 2=unv, 10=automatic, 27=stl, 32=cgns, 33=med, 39=inp, 40=ply2'' @ nl])
       (case map_of supported_mesh_output_formats (OutputFormat (mesh_obj s)) of
          None \<Rightarrow> Inl (KeyError (OutputFormat (mesh_obj s)))
        | Some code \<Rightarrow>
            (case attr ''temp_file_mesh'' (temp_file_mesh s) of
               Inl e \<Rightarrow> Inl e
             | Inr f \<Rightarrow> Inr [''Mesh.Format = '' @ str_int code @ '';'' @ nl,
                             ''Save "'' @ f @ ''";'' @ nl,
                             nl @ nl]))\<close>

definition footer_lines :: "string \<Rightarrow> string \<Rightarrow> string list" where
  "footer_lines bin geo =
     [''//////////////////////////////////////////////////////////////////////'' @ nl,
      ''// GMSH documentation:'' @ nl,
      ''// http://gmsh.info/doc/texinfo/gmsh.html#Mesh'' @ nl,
      ''//'' @ nl,
      ''// We do not check if something went wrong, like negative jacobians etc. You can run GMSH manually yourself: '' @ nl,
      ''//'' @ nl,
      ''// to see full GMSH log, run in bash:'' @ nl,
      ''// '' @ bin @ '' - '' @ geo @ nl,
      ''//'' @ nl,
      ''// to run GMSH and keep file in GMSH GUI (with log), run in bash:'' @ nl,
      ''// '' @ bin @ '' '' @ geo @ nl]"

definition header_lines :: "host \<Rightarrow> bool \<Rightarrow> string \<Rightarrow> string list" where
  \<open>header_lines h scaling brep =
     [''// geo file for meshing with GMSH meshing software created by FreeCAD'' @ nl,
      nl,
      ''// open brep geometry'' @ nl,
      ''Merge "'' @ brep @ ''";'' @ nl,
      nl]
     @ (if scaling \<and> UserSchema h = 0 then
          [''// length scale from current FreeCAD length unit to MKS unit (meter)'' @ nl,
           ''Mesh.ScalingFactor=0.001;'' @ nl]
        else [])\<close>

text \<open>Everything \<open>write_geo\<close> writes between \<open>open\<close> and \<open>close\<close>, one string for
  each call of \<open>geo.write\<close>, and the messages \<open>write_group\<close> prints on the way. The
  sections are evaluated in the order of the source, so the first statement that
  raises decides the exception.\<close>

definition geo_text :: "host \<Rightarrow> bool \<Rightarrow> tools \<Rightarrow> string \<Rightarrow> error + string list \<times> event list" where
  \<open>geo_text h scaling s geo =
     (case attr ''temp_file_geometry'' (temp_file_geometry s) of
        Inl e \<Rightarrow> Inl e
      | Inr brep \<Rightarrow>
     (case then_lines (Inr (header_lines h scaling brep)) (length_lines h s) of
        Inl e \<Rightarrow> Inl e
      | Inr part1 \<Rightarrow>
     (case write_group s of
        Inl e \<Rightarrow> Inl e
      | Inr (group_part, group_msgs) \<Rightarrow>
     (case then_lines
             (Inr (part1 @ group_part @ write_boundary_layer h s @ option_lines h s
                   @ algorithm_lines s @ meshing_lines h s))
             (then_lines (output_lines s)
                (case attr ''gmsh_bin'' (gmsh_bin s) of
                   Inl e \<Rightarrow> Inl e
                 | Inr bin \<Rightarrow> Inr (footer_lines bin geo))) of
        Inl e \<Rightarrow> Inl e
      | Inr text \<Rightarrow> Inr (text, group_msgs)))))\<close>

text \<open>\<open>write_geo\<close>. The file is recorded when \<open>geo.close()\<close> is reached; when a
  statement raises before that, the file stays open and what has reached the disk is
  not specified, so no file is recorded (nor are the messages \<open>write_group\<close> printed
  before the exception).\<close>

definition write_geo :: "host \<Rightarrow> bool \<Rightarrow> tools \<Rightarrow> error option \<times> tools" where
  "write_geo h scaling s =
     (case attr ''temp_file_geo'' (temp_file_geo s) of
        Inl e \<Rightarrow> (Some e, s)
      | Inr geo \<Rightarrow>
          (case open_geo h geo of
             Some e \<Rightarrow> (Some e, s)
           | None \<Rightarrow>
               (case geo_text h scaling s geo of
                  Inl e \<Rightarrow> (Some e, s)
                | Inr (text, ms) \<Rightarrow>
                    (None, s\<lparr>out := out s @ ms @ [WriteFile geo text]\<rparr>))))"

section \<open>The stages around the script\<close>

definition get_tmp_file_paths :: "host \<Rightarrow> tools \<Rightarrow> error option \<times> tools" where
  "get_tmp_file_paths h s =
     (let path_sep = (if system h = ''Linux'' then ''/''
                      else if system h = ''Windows'' then [CHR 0x5C]
                      else ''/'');
          tmpdir = gettempdir h;
          s1 = s\<lparr>temp_file_geometry := Some (tmpdir @ path_sep @ part_Name (part_obj s) @ ''_Geometry.brep''),
                 mesh_name := part_Name (part_obj s) @ ''_Mesh_TmpGmsh''\<rparr>
      in case map_of output_format_suffix (OutputFormat (mesh_obj s1)) of
           None \<Rightarrow> (Some (KeyError (OutputFormat (mesh_obj s1))), s1)
         | Some suffix \<Rightarrow>
             (None, s1\<lparr>temp_file_mesh := Some (tmpdir @ path_sep @ mesh_name s1 @ suffix),
                       temp_file_geo := Some (tmpdir @ path_sep @ ''shape2mesh.geo'')\<rparr>))"

text \<open>\<open>get_gmsh_command\<close>. With the standard location on Linux the result of
  \<open>which gmsh\<close> decides: exit code 0 gives the first line of its output, exit code 1
  raises, and any other exit code leaves the local \<open>gmsh_path\<close> unassigned, so the
  assignment that follows raises \<open>UnboundLocalError\<close>.\<close>

definition get_gmsh_command :: "host \<Rightarrow> tools \<Rightarrow> error option \<times> tools" where
  "get_gmsh_command h s =
     (let s0 = s\<lparr>gmsh_bin := None\<rparr> in
      if UseStandardGmshLocation h then
        (if system h = ''Windows'' then
           (let gmsh_path = getHomePath h @ ''bin/gmsh.exe'' in
            (None, (emit (SetString ''gmshBinaryPath'' gmsh_path) s0)\<lparr>gmsh_bin := Some gmsh_path\<rparr>))
         else if system h = ''Linux'' then
           (case which_gmsh h of
              NotStarted \<Rightarrow> (Some (HostError ''Popen''), s0)
            | Exited rc stdout stderr \<Rightarrow>
                if rc = 0 then (None, s0\<lparr>gmsh_bin := Some (takeWhile (\<lambda>c. c \<noteq> CHR 0x0A) stdout)\<rparr>)
                else if rc = 1 then
                  (let error_message = ''GMSH binary gmsh not found in standard system binary path. Please install gmsh or set path to binary in FEM preferences tab GMSH.'' @ nl
                   in (Some (PyException error_message), emit (PrintError error_message) s0))
                else (Some (UnboundLocalError ''gmsh_path''), s0))
         else
           (let error_message = ''No standard location implemented for your operating system. Set GMHS binary path in FEM preferences.'' @ nl
            in (Some (PyException error_message), emit (PrintError error_message) s0)))
      else
        (let b1 = gmshBinaryPath h;
             b2 = (if b1 = [] then
                     (if system h = ''Linux'' then ''gmsh''
                      else if system h = ''Windows'' then getHomePath h @ ''bin/gmsh.exe''
                      else ''gmsh'')
                   else b1)
         in (None, s0\<lparr>gmsh_bin := Some b2\<rparr>)))"

definition write_part_file :: "host \<Rightarrow> tools \<Rightarrow> error option \<times> tools" where
  "write_part_file h s =
     (case attr ''temp_file_geometry'' (temp_file_geometry s) of
        Inl e \<Rightarrow> (Some e, s)
      | Inr f \<Rightarrow>
          (case exportBrep h f of
             Some e \<Rightarrow> (Some e, s)
           | None \<Rightarrow> (None, emit (ExportBrep f) s)))"

text \<open>\<open>run_gmsh_with_geo\<close>. A process that starts is waited for and its standard
  error is the value returned, whatever its exit code, which the method does not read.
  When the process cannot be started the handler formats \<open>self.gmsh_command\<close>: no
  method of the class assigns this attribute, so reading it raises unless a caller
  has set it.\<close>

definition run_gmsh_with_geo :: "host \<Rightarrow> tools \<Rightarrow> (error + string) \<times> tools" where
  "run_gmsh_with_geo h s =
     (let s0 = s\<lparr>error_flag := False\<rparr> in
      case attr ''gmsh_bin'' (gmsh_bin s0) of
        Inl e \<Rightarrow> (Inl e, s0)
      | Inr bin \<Rightarrow>
          (case attr ''temp_file_geo'' (temp_file_geo s0) of
             Inl e \<Rightarrow> (Inl e, s0)
           | Inr geo \<Rightarrow>
               (let comandlist = [bin, ''-'', geo] in
                case run_gmsh h comandlist of
                  Exited rc output err \<Rightarrow> (Inr err, emit (Popen comandlist) s0)
                | NotStarted \<Rightarrow>
                    (case attr ''gmsh_command'' (gmsh_command s0) of
                       Inl e \<Rightarrow> (Inl e, s0)
                     | Inr c \<Rightarrow>
                         (let err = ''Error executing: '' @ c @ nl
                          in (Inr err, (emit (PrintError err) s0)\<lparr>error_flag := True\<rparr>))))))"

definition read_and_set_new_mesh :: "host \<Rightarrow> tools \<Rightarrow> error option \<times> tools" where
  "read_and_set_new_mesh h s =
     (let r = (if \<not> error_flag s then
                 (case attr ''temp_file_mesh'' (temp_file_mesh s) of
                    Inl e \<Rightarrow> (Some e, s)
                  | Inr f \<Rightarrow>
                      (case Fem_read h f of
                         Inl e \<Rightarrow> (Some e, s)
                       | Inr fem_mesh \<Rightarrow>
                           (None, (emit (FemRead f) s)\<lparr>mesh_obj := (mesh_obj s)\<lparr>FemMesh := fem_mesh\<rparr>\<rparr>)))
               else (None, emit (Print ''No mesh was created.'') s))
      in case r of
           (Some e, s1) \<Rightarrow> (Some e, s1)
         | (None, s1) \<Rightarrow>
             (case temp_file_geometry s1 of
                None \<Rightarrow> (Some (AttributeError ''temp_file_geometry''), s1)
              | Some _ \<Rightarrow>
                  (case temp_file_mesh s1 of
                     None \<Rightarrow> (Some (AttributeError ''temp_file_mesh''), s1\<lparr>temp_file_geometry := None\<rparr>)
                   | Some _ \<Rightarrow> (None, s1\<lparr>temp_file_geometry := None, temp_file_mesh := None\<rparr>))))"

section \<open>The two pipelines\<close>

text \<open>Sequencing: what follows a stage runs on the state the stage left, and only
  when the stage did not raise.\<close>

definition seq ::
  "(tools \<Rightarrow> error option \<times> tools) \<Rightarrow> (tools \<Rightarrow> error option \<times> tools) \<Rightarrow> tools \<Rightarrow> error option \<times> tools" where
  "seq stage rest s = (case stage s of (Some e, s1) \<Rightarrow> (Some e, s1) | (None, s1) \<Rightarrow> rest s1)"

definition andthen ::
  "(tools \<Rightarrow> error option \<times> tools) \<Rightarrow> (tools \<Rightarrow> (error + 'a) \<times> tools) \<Rightarrow> tools \<Rightarrow> (error + 'a) \<times> tools" where
  "andthen stage rest s = (case stage s of (Some e, s1) \<Rightarrow> (Inl e, s1) | (None, s1) \<Rightarrow> rest s1)"

definition total :: "(tools \<Rightarrow> tools) \<Rightarrow> tools \<Rightarrow> error option \<times> tools" where
  "total stage s = (None, stage s)"

text \<open>The stages that \<open>create_mesh\<close> and \<open>export_mesh\<close> share, up to the script.\<close>

definition prepare :: "host \<Rightarrow> bool \<Rightarrow> tools \<Rightarrow> error option \<times> tools" where
  "prepare h scaling =
     seq (total get_dimension)
    (seq (get_tmp_file_paths h)
    (seq (get_gmsh_command h)
    (seq (total (get_group_data h))
    (seq (total (get_region_data h))
    (seq (total (get_boundary_layer_data h))
    (seq (write_part_file h)
         (write_geo h scaling)))))))"

text \<open>\<open>create_mesh\<close> returns what \<open>run_gmsh_with_geo\<close> returned.\<close>

definition create_mesh :: "host \<Rightarrow> tools \<Rightarrow> (error + string) \<times> tools" where
  "create_mesh h =
     andthen (prepare h False)
       (\<lambda>s. case run_gmsh_with_geo h s of
               (Inl e, s1) \<Rightarrow> (Inl e, s1)
             | (Inr err, s1) \<Rightarrow>
                 (case read_and_set_new_mesh h s1 of
                    (Some e, s2) \<Rightarrow> (Inl e, s2)
                  | (None, s2) \<Rightarrow> (Inr err, s2)))"

text \<open>The body of the \<open>try\<close> block of \<open>export_mesh\<close>; its value is
  \<open>output_filename\<close>. The script is written with \<open>write_geo(True)\<close> whatever the
  argument \<open>scaling\<close> is.\<close>

definition export_body :: "host \<Rightarrow> string \<Rightarrow> string option \<Rightarrow> tools \<Rightarrow> (error + string option) \<times> tools" where
  "export_body h output_format output_filestring s =
     andthen (prepare h True)
       (\<lambda>s. case run_gmsh_with_geo h s of
               (Inl e, s1) \<Rightarrow> (Inl e, s1)
             | (Inr err, s1) \<Rightarrow>
                 if err \<noteq> [] then
                   (Inr None, emit (Print (''Gmsh has error during mesh generation for '' @ output_format)) s1)
                 else
                   (case attr ''temp_file_mesh'' (temp_file_mesh s1) of
                      Inl e \<Rightarrow> (Inl e, s1)
                    | Inr output_filename \<Rightarrow>
                        (case output_filestring of
                           None \<Rightarrow> (Inr (Some output_filename), s1)
                         | Some dst \<Rightarrow>
                             if dst = [] then (Inr (Some output_filename), s1)
                             else (case shutil_move h output_filename dst of
                                     Some e \<Rightarrow> (Inl e, s1)
                                   | None \<Rightarrow> (Inr (Some dst), emit (Move output_filename dst) s1)))))
       (s\<lparr>mesh_obj := (mesh_obj s)\<lparr>OutputFormat := output_format\<rparr>\<rparr>)"

text \<open>\<open>export_mesh\<close>: the \<open>finally\<close> clause runs on the state the body left, whether
  the body returned or raised.\<close>

definition export_mesh ::
  "host \<Rightarrow> string \<Rightarrow> string option \<Rightarrow> bool \<Rightarrow> tools \<Rightarrow> (error + string option) \<times> tools" where
  "export_mesh h output_format output_filestring scaling s =
     (let output_format_saved = OutputFormat (mesh_obj s);
          r = export_body h output_format output_filestring s
      in (fst r, (snd r)\<lparr>mesh_obj := (mesh_obj (snd r))\<lparr>OutputFormat := output_format_saved\<rparr>\<rparr>))"

section \<open>Observations and example inputs\<close>

text \<open>What a run left behind, read off the log: the scripts written and closed, and
  the command lines of the mesher processes that started.\<close>

fun scripts :: "event list \<Rightarrow> (string \<times> string list) list" where
  "scripts [] = []"
| "scripts (WriteFile f text # es) = (f, text) # scripts es"
| "scripts (_ # es) = scripts es"

fun spawned :: "event list \<Rightarrow> string list list" where
  "spawned [] = []"
| "spawned (Popen c # es) = c # spawned es"
| "spawned (_ # es) = spawned es"

fun reads :: "event list \<Rightarrow> string list" where
  "reads [] = []"
| "reads (FemRead f # es) = f # reads es"
| "reads (_ # es) = reads es"

text \<open>The list of elements of a setting, under whichever of the two keys it has.\<close>

definition boundary_of :: "setting \<Rightarrow> string list" where
  "boundary_of st =
     (case map_of st ''EdgesList'' of
        Some (Elems l) \<Rightarrow> l
      | _ \<Rightarrow> (case map_of st ''FacesList'' of Some (Elems l) \<Rightarrow> l | _ \<Rightarrow> []))"

text \<open>A solid box on a Linux host where every collaborator succeeds; the examples
  below vary one field at a time.\<close>

definition box :: part where
  "box = \<lparr>part_Name = ''Box'', part_Label = ''Box'', ShapeType = ''Solid'', ProxyType = None\<rparr>"

definition box_mesh :: mesh_obj where
  "box_mesh =
     \<lparr>Part = box, CharacteristicLengthMax = 1, CharacteristicLengthMin = 0,
      GeometryTolerance = 0, ElementOrder = ''2nd'', ElementDimension = ''From Shape'',
      Algorithm2D = ''Automatic'', OutputFormat = ''I-Deas universal'',
      MeshRegionList = [], MeshBoundaryLayerList = [], MeshGroupList = [],
      RecombineAll = None, OptimizeStd = Some True, OptimizeNetgen = Some False,
      HighOrderOptimize = Some False, CoherenceMesh = None, FemMesh = ''old mesh''\<rparr>"

definition linux :: host where
  "linux =
     \<lparr>system = ''Linux'', gettempdir = ''/tmp'', getHomePath = ''/usr/'',
      UseStandardGmshLocation = False, gmshBinaryPath = [], UserSchema = 0,
      which_gmsh = Exited 0 (''/usr/bin/gmsh'' @ nl) [],
      isSame = (\<lambda>_. True), find_element_in_shape = (\<lambda>_ _. None),
      get_vertexes_by_element = (\<lambda>_. [0, 1]),
      get_mesh_group_elements = (\<lambda>_. []), get_analysis_group_elements = (\<lambda>_. []),
      exportBrep = (\<lambda>_. None), open_geo = (\<lambda>_. None),
      run_gmsh = (\<lambda>_. Exited 0 [] []), Fem_read = (\<lambda>_. Inr ''new mesh''),
      shutil_move = (\<lambda>_ _. None), str_float = (\<lambda>_. ''#'')\<rparr>"

text \<open>The boundary layer of the specification's scenario C: first layer 0.1, growth
  1.2, five layers, on one face.\<close>

definition layer :: mesh_boundary_layer where
  "layer = \<lparr>bl_Name = ''Layer'', MinimumThickness = 1 / 10, GrowthRate = 12 / 10,
            NumberOfLayers = 5, bl_References = [(''Box'', [''Face1''])]\<rparr>"

section \<open>Definitions used to state the properties\<close>

text \<open>The claims of the regions in the order of the configuration: for every region
  with a characteristic length other than zero, every element of every reference,
  under the name it has in the shape to mesh, with the length of the region.\<close>

definition region_claims :: "host \<Rightarrow> mesh_region list \<Rightarrow> (string \<times> real) list" where
  "region_claims h rs =
     concat (map (\<lambda>mr. if CharacteristicLength mr \<noteq> 0 then
                          concat (map (\<lambda>sub. map (\<lambda>e0. (fst (find_elems h (fst sub) (\<not> isSame h (fst sub)) [] e0),
                                                       CharacteristicLength mr)) (snd sub))
                                    (mr_References mr))
                        else []) rs)"

text \<open>The invariants of the loops of \<open>get_boundary_layer_data\<close>: inside one boundary
  layer, with \<open>S\<close> the elements of the settings stored so far, and between two
  boundary layers.\<close>

definition belem_inv :: "string set \<Rightarrow> string list \<times> string list \<times> event list \<Rightarrow> bool" where
  "belem_inv S acc =
     (distinct (fst (snd acc)) \<and> distinct (fst acc) \<and> set (fst acc) \<subseteq> set (fst (snd acc))
      \<and> set (fst acc) \<inter> S = {} \<and> S \<subseteq> set (fst (snd acc)))"

definition bl_inv :: "setting list \<times> string list \<times> event list \<Rightarrow> bool" where
  "bl_inv acc =
     (distinct (fst (snd acc)) \<and> distinct (concat (map boundary_of (fst acc)))
      \<and> set (concat (map boundary_of (fst acc))) \<subseteq> set (fst (snd acc)))"

text \<open>Two regions that claim the same face.\<close>

definition fine :: mesh_region where
  "fine = \<lparr>mr_Name = ''Fine'', CharacteristicLength = 2,
           mr_References = [(''Box'', [''Face1'', ''Face2''])]\<rparr>"

definition coarse :: mesh_region where
  "coarse = \<lparr>mr_Name = ''Coarse'', CharacteristicLength = 3,
             mr_References = [(''Box'', [''Face1''])]\<rparr>"

text \<open>The kind of a group, read off its first element as \<open>write_group\<close> does; a group
  that declares a domain for a dimension (a volume for 3, a surface for 2); a group
  that is declared at all; and the number of \<open>Physical\<close> declarations among lines.\<close>

definition group_kind :: "string list \<Rightarrow> string option" where
  "group_kind gdata =
     (case gdata of
        [] \<Rightarrow> None
      | g0 # _ \<Rightarrow>
          if startswith g0 ''Solid'' then Some ''Volume''
          else if startswith g0 ''Face'' then Some ''Surface''
          else if startswith g0 ''Edge'' then Some ''Line''
          else if startswith g0 ''Vertex'' then Some ''Vertex''
          else None)"

definition domain_group :: "string \<Rightarrow> string \<times> string list \<Rightarrow> bool" where
  "domain_group dimn g =
     (dimn = ''3'' \<and> group_kind (snd g) = Some ''Volume''
      \<or> dimn = ''2'' \<and> group_kind (snd g) = Some ''Surface'')"

definition declared :: "string \<times> string list \<Rightarrow> bool" where
  "declared g =
     (group_kind (snd g) = Some ''Volume'' \<or> group_kind (snd g) = Some ''Surface''
      \<or> group_kind (snd g) = Some ''Line'')"

definition physical :: "string list \<Rightarrow> nat" where
  "physical ls = length (filter (\<lambda>l. startswith l ''Physical '') ls)"

text \<open>The box with a group of two faces and a group of one edge.\<close>

definition walls :: tools where
  "walls = (get_dimension (init box_mesh None))
             \<lparr>group_elements := [(''Wall'', [''Face1'', ''Face2'']), (''Rim'', [''Edge3''])]\<rparr>"

text \<open>The events that are effects on the script, the mesher and the mesh; what every
  stage before the script leaves as it is; and those stages without the first.\<close>

fun observed :: "event \<Rightarrow> bool" where
  "observed (WriteFile f text) = True"
| "observed (Popen c) = True"
| "observed (FemRead f) = True"
| "observed _ = False"

definition loud :: "event list \<Rightarrow> event list" where
  "loud es = filter observed es"

definition kept :: "tools \<Rightarrow> mesh_obj \<times> part \<times> string \<times> string \<times> string option \<times> event list" where
  "kept s = (mesh_obj s, part_obj s, algorithm2D s, algorithm3D s, gmsh_command s, loud (out s))"

definition front :: "host \<Rightarrow> tools \<Rightarrow> error option \<times> tools" where
  "front h =
     seq (get_tmp_file_paths h)
    (seq (get_gmsh_command h)
    (seq (total (get_group_data h))
    (seq (total (get_region_data h))
    (seq (total (get_boundary_layer_data h))
         (write_part_file h)))))"

text \<open>Runs of \<open>create_mesh\<close> on the box: with the algorithm \<open>Frontal\<close>, with one
  boundary layer, and with a vertex in place of the solid; a host whose mesher ends
  with exit code 1 and a message on standard error, and one where it cannot be started.\<close>

definition frontal_run :: "(error + string) \<times> tools" where
  "frontal_run = create_mesh linux (init (box_mesh\<lparr>Algorithm2D := ''Frontal''\<rparr>) None)"

definition layered_run :: "(error + string) \<times> tools" where
  "layered_run = create_mesh linux (init (box_mesh\<lparr>MeshBoundaryLayerList := [layer]\<rparr>) None)"

definition vertex_run :: "(error + string) \<times> tools" where
  "vertex_run = create_mesh linux (init (box_mesh\<lparr>Part := box\<lparr>ShapeType := ''Vertex''\<rparr>\<rparr>) None)"

definition failing :: host where
  "failing = linux\<lparr>run_gmsh := (\<lambda>_. Exited 1 [] ''Error   : Self intersecting surface mesh'')\<rparr>"

definition failed_run :: "(error + string) \<times> tools" where
  "failed_run = create_mesh failing (init box_mesh None)"

definition missing :: host where
  "missing = linux\<lparr>run_gmsh := (\<lambda>_. NotStarted)\<rparr>"

section \<open>Properties\<close>

lemma get_dimension_mesh_obj: "mesh_obj (get_dimension s) = mesh_obj s"
  by (simp add: get_dimension_def Let_def emit_def)

lemma foldl_plus_sum_list: "foldl (+) (a::real) xs = a + sum_list xs"
  by (induction xs arbitrary: a) simp_all

lemma py_sum_geometric:
  "py_sum (map (\<lambda>i. h * r ^ i) (py_range n)) = h * (\<Sum>i<nat n. r ^ i)"
proof -
  have "py_sum (map (\<lambda>i. h * r ^ i) (py_range n)) = sum_list (map (\<lambda>i. h * r ^ i) [0..<nat n])"
    by (simp add: py_sum_def py_range_def foldl_plus_sum_list)
  also have "\<dots> = (\<Sum>i<nat n. h * r ^ i)"
    by (simp add: interv_sum_list_conv_sum_set_nat lessThan_atLeast0)
  also have "\<dots> = h * (\<Sum>i<nat n. r ^ i)"
    by (simp add: sum_distrib_left)
  finally show ?thesis .
qed

lemma bl_setting_thickness:
  "map_of (fst (bl_setting cl dimn b belems)) ''thickness'' =
     Some (Num (MinimumThickness b * (\<Sum>i<nat (NumberOfLayers b). GrowthRate b ^ i)))"
  by (simp add: bl_setting_def Let_def py_sum_geometric)

lemma bl_setting_hfar:
  "\<exists>t. map_of (fst (bl_setting cl dimn b belems)) ''thickness'' = Some (Num t)
     \<and> map_of (fst (bl_setting cl dimn b belems)) ''hfar'' =
         Some (Num (if cl > t * 0.8 \<and> cl < t * 1.6 then cl else t))"
  by (simp add: bl_setting_def Let_def)

lemma bl_obj_settings:
  "fst (bl_obj h cl dimn acc b) =
     (if 0 < MinimumThickness b \<and> bl_References b \<noteq> []
      then fst acc @ [fst (bl_setting cl dimn b
             (fst (foldl (bl_sub h b) ([], fst (snd acc), snd (snd acc)) (bl_References b))))]
      else fst acc)"
  by (auto simp add: bl_obj_def Let_def)

lemma foldl_bl_obj_thickness:
  "map (\<lambda>st. map_of st ''thickness'') (fst (foldl (bl_obj h cl dimn) acc bs)) =
     map (\<lambda>st. map_of st ''thickness'') (fst acc)
       @ map (\<lambda>b. Some (Num (MinimumThickness b * (\<Sum>i<nat (NumberOfLayers b). GrowthRate b ^ i))))
           (filter (\<lambda>b. 0 < MinimumThickness b \<and> bl_References b \<noteq> []) bs)"
proof (induction bs arbitrary: acc)
  case Nil
  show ?case by simp
next
  case (Cons b bs)
  show ?case
    by (simp add: Cons.IH bl_obj_settings bl_setting_thickness)
qed

lemma foldl_bl_obj_all:
  assumes step: "\<And>b belems. P (fst (bl_setting cl dimn b belems))"
    and start: "\<forall>st \<in> set (fst acc). P st"
  shows "\<forall>st \<in> set (fst (foldl (bl_obj h cl dimn) acc bs)). P st"
  using start
proof (induction bs arbitrary: acc)
  case Nil
  then show ?case by simp
next
  case (Cons b bs)
  have "\<forall>st \<in> set (fst (bl_obj h cl dimn acc b)). P st"
    using Cons.prems step by (simp add: bl_obj_settings)
  then show ?case
    using Cons.IH by simp
qed

lemma settings_all:
  assumes "\<And>b belems. P (fst (bl_setting (clmax s) (dimension s) b belems))"
  shows "\<forall>st \<in> set (bl_setting_list (get_boundary_layer_data h s)). P st"
proof -
  have "\<forall>st \<in> set (fst (foldl (bl_obj h (clmax s) (dimension s)) ([], [], lg) bs)). P st" for lg bs
    by (rule foldl_bl_obj_all) (simp_all add: assms)
  then show ?thesis
    by (simp add: get_boundary_layer_data_def Let_def)
qed

subsection \<open>Thickness of a boundary layer\<close>

text \<open>
  Claim C1. The settings that \<open>get_boundary_layer_data\<close> stores are those of the
  boundary layers with a positive minimum thickness (and a reference list that is not
  empty), in their order, and the thickness stored in each is the minimum thickness
  \<open>h\<close> times the sum of the powers \<open>r^i\<close> of the growth rate for \<open>i\<close> from \<open>0\<close> to
  \<open>n - 1\<close>, where \<open>n\<close> is the number of layers. With growth rate 1 the thickness is
  \<open>h\<close> times \<open>n\<close>.
\<close>
theorem thickness_geometric_sum:
  "map (\<lambda>st. map_of st ''thickness'') (bl_setting_list (get_boundary_layer_data h s)) =
     map (\<lambda>b. Some (Num (MinimumThickness b * (\<Sum>i<nat (NumberOfLayers b). GrowthRate b ^ i))))
       (filter (\<lambda>b. 0 < MinimumThickness b \<and> bl_References b \<noteq> [])
          (MeshBoundaryLayerList (mesh_obj s)))
   \<and> map_of (fst (bl_setting cl dimn (b\<lparr>GrowthRate := 1\<rparr>) belems)) ''thickness'' =
       Some (Num (MinimumThickness b * real (nat (NumberOfLayers b))))"
proof
  show "map (\<lambda>st. map_of st ''thickness'') (bl_setting_list (get_boundary_layer_data h s)) =
     map (\<lambda>b. Some (Num (MinimumThickness b * (\<Sum>i<nat (NumberOfLayers b). GrowthRate b ^ i))))
       (filter (\<lambda>b. 0 < MinimumThickness b \<and> bl_References b \<noteq> [])
          (MeshBoundaryLayerList (mesh_obj s)))"
    by (simp add: get_boundary_layer_data_def Let_def foldl_bl_obj_thickness)
  show "map_of (fst (bl_setting cl dimn (b\<lparr>GrowthRate := 1\<rparr>) belems)) ''thickness'' =
       Some (Num (MinimumThickness b * real (nat (NumberOfLayers b))))"
    by (simp add: bl_setting_thickness)
qed

text \<open>The boundary layer of scenario C (0.1, 1.2, five layers) gets the thickness
  0.74416.\<close>

theorem thickness_scenario_C:
  "map (\<lambda>st. map_of st ''thickness'')
     (bl_setting_list (get_boundary_layer_data linux
        (get_dimension (init (box_mesh\<lparr>MeshBoundaryLayerList := [layer]\<rparr>) None))))
   = [Some (Num (4651 / 6250))]"
proof -
  let ?s = "get_dimension (init (box_mesh\<lparr>MeshBoundaryLayerList := [layer]\<rparr>) None)"
  have m: "MeshBoundaryLayerList (mesh_obj ?s) = [layer]"
    by (simp add: get_dimension_mesh_obj init_def)
  have g: "sum ((^) (6 / 5 :: real)) {..<5::nat} = 4651 / 625"
    by (simp add: eval_nat_numeral lessThan_Suc power_divide)
  from thickness_geometric_sum [of linux ?s]
  have "map (\<lambda>st. map_of st ''thickness'') (bl_setting_list (get_boundary_layer_data linux ?s)) =
     map (\<lambda>b. Some (Num (MinimumThickness b * (\<Sum>i<nat (NumberOfLayers b). GrowthRate b ^ i))))
       (filter (\<lambda>b. 0 < MinimumThickness b \<and> bl_References b \<noteq> [])
          (MeshBoundaryLayerList (mesh_obj ?s)))"
    by (rule conjunct1)
  also have "\<dots> = [Some (Num (4651 / 6250))]"
    unfolding m by (simp add: layer_def g)
  finally show ?thesis .
qed

subsection \<open>The cell size outside a boundary layer\<close>

text \<open>
  Claim C2. In every setting that \<open>get_boundary_layer_data\<close> stores, with \<open>t\<close> the
  thickness stored in it, \<open>hfar\<close> is \<open>clmax\<close> when \<open>0.8 t < clmax < 1.6 t\<close>, both
  inequalities strict, and \<open>t\<close> otherwise; so it is \<open>t\<close> when \<open>clmax\<close> is exactly
  \<open>0.8 t\<close> or \<open>1.6 t\<close>. For a positive \<open>clmax\<close>, \<open>hfar\<close> equals \<open>clmax\<close> exactly when
  the two inequalities hold.
\<close>
theorem hfar_selection:
  assumes "st \<in> set (bl_setting_list (get_boundary_layer_data h s))"
  shows "\<exists>t f. map_of st ''thickness'' = Some (Num t) \<and> map_of st ''hfar'' = Some (Num f)
     \<and> f = (if 0.8 * t < clmax s \<and> clmax s < 1.6 * t then clmax s else t)
     \<and> (clmax s = 0.8 * t \<or> clmax s = 1.6 * t \<longrightarrow> f = t)
     \<and> (0 < clmax s \<longrightarrow> (f = clmax s \<longleftrightarrow> 0.8 * t < clmax s \<and> clmax s < 1.6 * t))"
proof -
  let ?P = "\<lambda>st. \<exists>t. map_of st ''thickness'' = Some (Num t)
     \<and> map_of st ''hfar'' = Some (Num (if clmax s > t * 0.8 \<and> clmax s < t * 1.6 then clmax s else t))"
  have "\<forall>st \<in> set (bl_setting_list (get_boundary_layer_data h s)). ?P st"
    by (rule settings_all) (rule bl_setting_hfar)
  with assms obtain t where t: "map_of st ''thickness'' = Some (Num t)"
    and f: "map_of st ''hfar'' = Some (Num (if clmax s > t * 0.8 \<and> clmax s < t * 1.6 then clmax s else t))"
    by blast
  let ?f = "if clmax s > t * 0.8 \<and> clmax s < t * 1.6 then clmax s else t"
  have 1: "?f = (if 0.8 * t < clmax s \<and> clmax s < 1.6 * t then clmax s else t)"
    by (simp add: mult.commute)
  have 2: "clmax s = 0.8 * t \<or> clmax s = 1.6 * t \<longrightarrow> ?f = t"
    by auto
  have 3: "0 < clmax s \<longrightarrow> (?f = clmax s \<longleftrightarrow> 0.8 * t < clmax s \<and> clmax s < 1.6 * t)"
    by (auto simp add: mult.commute)
  from t f 1 2 3 show ?thesis by blast
qed


text \<open>In scenario C, with \<open>clmax = 1\<close>, the thickness 0.74416 gives \<open>hfar = 1\<close>.\<close>

theorem hfar_scenario_C:
  "map_of (hd (bl_setting_list (get_boundary_layer_data linux
        (get_dimension (init (box_mesh\<lparr>MeshBoundaryLayerList := [layer]\<rparr>) None))))) ''hfar''
   = Some (Num 1)"
proof -
  let ?s = "get_dimension (init (box_mesh\<lparr>MeshBoundaryLayerList := [layer]\<rparr>) None)"
  let ?st = "hd (bl_setting_list (get_boundary_layer_data linux ?s))"
  have th: "map_of ?st ''thickness'' = Some (Num (4651 / 6250))"
    by code_simp
  have cl: "clmax ?s = 1"
    by code_simp
  have "?st \<in> set (bl_setting_list (get_boundary_layer_data linux ?s))"
    by code_simp
  from hfar_selection [OF this] th cl show ?thesis
    by auto
qed

subsection \<open>Unknown element order and algorithm names\<close>

text \<open>
  Claim C8, as the code has it. \<open>__init__\<close> never raises. An element order other than
  \<open>1st\<close> and \<open>2nd\<close> prints \<open>Error in order\<close> and is kept as the order, unchanged. An
  algorithm name outside the table of the 2D algorithms gives the code 2, one outside
  the table of the 3D algorithms gives the code 1, and neither is reported: nothing
  but the message about the order is ever printed. The two algorithm codes are always
  codes of the tables.
\<close>

theorem unknown_enum_strings:
  "(ElementOrder m \<noteq> ''1st'' \<and> ElementOrder m \<noteq> ''2nd'' \<longrightarrow>
      order (init m an) = ElementOrder m \<and> out (init m an) = [Print ''Error in order''])
   \<and> (ElementOrder m = ''1st'' \<or> ElementOrder m = ''2nd'' \<longrightarrow> out (init m an) = [])
   \<and> (Algorithm2D m \<notin> set [''Automatic'', ''MeshAdapt'', ''Delaunay'', ''Frontal'', ''BAMG'', ''DelQuad'']
        \<longrightarrow> algorithm2D (init m an) = ''2'')
   \<and> (Algorithm2D m \<notin> set [''Automatic'', ''Delaunay'', ''New Delaunay'', ''Frontal'',
          ''Frontal Delaunay'', ''Frontal Hex'', ''MMG3D'', ''R-tree'']
        \<longrightarrow> algorithm3D (init m an) = ''1'')
   \<and> algorithm2D (init m an) \<in> set [''1'', ''2'', ''5'', ''6'', ''7'', ''8'']
   \<and> algorithm3D (init m an) \<in> set [''1'', ''2'', ''4'', ''5'', ''6'', ''7'', ''9'']"
  by (simp add: init_def resolve_order_def resolve_algorithm2D_def resolve_algorithm3D_def)

theorem unknown_enum_strings_witness:
  "order (init (box_mesh\<lparr>ElementOrder := ''3rd'', Algorithm2D := ''Netgen''\<rparr>) None) = ''3rd''
   \<and> out (init (box_mesh\<lparr>ElementOrder := ''3rd'', Algorithm2D := ''Netgen''\<rparr>) None) = [Print ''Error in order'']
   \<and> algorithm2D (init (box_mesh\<lparr>ElementOrder := ''3rd'', Algorithm2D := ''Netgen''\<rparr>) None) = ''2''
   \<and> algorithm3D (init (box_mesh\<lparr>ElementOrder := ''3rd'', Algorithm2D := ''Netgen''\<rparr>) None) = ''1''"
  using unknown_enum_strings [of "box_mesh\<lparr>ElementOrder := ''3rd'', Algorithm2D := ''Netgen''\<rparr>" None]
  by simp

text \<open>The claim as stated fails: the order \<open>3rd\<close> is not replaced by a code, and the
  unknown algorithm name \<open>Netgen\<close> is not reported.\<close>

theorem unknown_order_is_kept:
  "order (init (box_mesh\<lparr>ElementOrder := ''3rd''\<rparr>) None) = ''3rd''
   \<and> out (init (box_mesh\<lparr>Algorithm2D := ''Netgen''\<rparr>) None) = []"
  by (simp add: init_def resolve_order_def box_mesh_def)

subsection \<open>An element is claimed once\<close>

lemma foldl_inv:
  assumes "P a" and "\<And>a x. P a \<Longrightarrow> P (f a x)"
  shows "P (foldl f a xs)"
  using assms(1) by (induction xs arbitrary: a) (auto intro: assms(2))

lemma find_elems_fst: "fst (find_elems h sub0 search msg e0) = fst (find_elems h sub0 search [] e0)"
  by (simp add: find_elems_def split: option.splits)

lemma region_elem_keeps:
  "map_of (fst acc) e = Some v \<Longrightarrow> map_of (fst (region_elem h mr sub0 search acc e0)) e = Some v"
  by (auto simp add: region_elem_def Let_def split: prod.splits)

lemma region_obj_keeps:
  assumes "map_of (fst acc) e = Some v"
  shows "map_of (fst (region_obj h acc mr)) e = Some v"
proof -
  have sub: "map_of (fst (region_sub h mr a sub)) e = Some v" if "map_of (fst a) e = Some v" for a sub
    unfolding region_sub_def using that
    by (rule foldl_inv [where P = "\<lambda>a. map_of (fst a) e = Some v"]) (rule region_elem_keeps)
  have "map_of (fst (foldl (region_sub h mr) acc subs)) e = Some v" for subs
    using assms by (rule foldl_inv [where P = "\<lambda>a. map_of (fst a) e = Some v"]) (rule sub)
  with assms show ?thesis
    by (simp add: region_obj_def)
qed

lemma regions_keep:
  "map_of (fst acc) e = Some v \<Longrightarrow> map_of (fst (foldl (region_obj h) acc rs)) e = Some v"
  by (erule foldl_inv [where P = "\<lambda>a. map_of (fst a) e = Some v"]) (rule region_obj_keeps)

lemma region_elem_distinct:
  "distinct (map fst (fst acc)) \<Longrightarrow> distinct (map fst (fst (region_elem h mr sub0 search acc e0)))"
  by (auto simp add: region_elem_def Let_def map_of_eq_None_iff split: prod.splits)

lemma region_obj_distinct:
  assumes "distinct (map fst (fst acc))"
  shows "distinct (map fst (fst (region_obj h acc mr)))"
proof -
  have sub: "distinct (map fst (fst (region_sub h mr a sub)))" if "distinct (map fst (fst a))" for a sub
    unfolding region_sub_def using that
    by (rule foldl_inv [where P = "\<lambda>a. distinct (map fst (fst a))"]) (rule region_elem_distinct)
  have "distinct (map fst (fst (foldl (region_sub h mr) acc subs)))" for subs
    using assms by (rule foldl_inv [where P = "\<lambda>a. distinct (map fst (fst a))"]) (rule sub)
  with assms show ?thesis
    by (simp add: region_obj_def)
qed

lemma regions_distinct:
  "distinct (map fst (fst acc)) \<Longrightarrow> distinct (map fst (fst (foldl (region_obj h) acc rs)))"
  by (erule foldl_inv [where P = "\<lambda>a. distinct (map fst (fst a))"]) (rule region_obj_distinct)

lemma get_region_data_distinct: "distinct (map fst (ele_length_map (get_region_data h s)))"
  by (simp add: get_region_data_def Let_def regions_distinct)

lemma region_elem_duplicate:
  assumes "map_of m (fst (find_elems h sub0 search [] e0)) \<noteq> None"
  shows "fst (region_elem h mr sub0 search (m, lg) e0) = m
     \<and> last (snd (region_elem h mr sub0 search (m, lg) e0)) =
         PrintError (''The element '' @ fst (find_elems h sub0 search [] e0) @ '' of the meshregion ''
           @ mr_Name mr @ '' has been added to another mesh region.'' @ nl)"
  using assms
  by (auto simp add: region_elem_def Let_def find_elems_def split: prod.splits option.splits if_splits)


lemma boundary_of_setting:
  "boundary_of (fst (bl_setting cl dimn b belem)) = (if dimn = ''2'' \<or> dimn = ''3'' then belem else [])"
  by (simp add: boundary_of_def bl_setting_def Let_def)

lemma bl_elem_inv: "belem_inv S acc \<Longrightarrow> belem_inv S (bl_elem h b sub0 search acc e0)"
  by (auto simp add: belem_inv_def bl_elem_def Let_def split: prod.splits)

lemma bl_sub_inv: "belem_inv S acc \<Longrightarrow> belem_inv S (bl_sub h b acc sub)"
  unfolding bl_sub_def by (erule foldl_inv) (rule bl_elem_inv)

lemma bl_subs_inv: "belem_inv S acc \<Longrightarrow> belem_inv S (foldl (bl_sub h b) acc subs)"
  by (erule foldl_inv) (rule bl_sub_inv)

lemma bl_obj_inv:
  assumes "bl_inv acc"
  shows "bl_inv (bl_obj h cl dimn acc b)"
proof -
  let ?S = "set (concat (map boundary_of (fst acc)))"
  let ?r = "foldl (bl_sub h b) ([], fst (snd acc), snd (snd acc)) (bl_References b)"
  have "belem_inv ?S ([], fst (snd acc), snd (snd acc))"
    using assms by (simp add: belem_inv_def bl_inv_def)
  then have r: "belem_inv ?S ?r"
    by (rule bl_subs_inv)
  have "bl_inv (fst acc @ [fst (bl_setting cl dimn b (fst ?r))], fst (snd ?r), lg)" for lg
    using r assms by (auto simp add: bl_inv_def belem_inv_def boundary_of_setting)
  moreover have "bl_inv (fst acc, fst (snd acc), lg)" for lg
    using assms by (simp add: bl_inv_def)
  ultimately show ?thesis
    by (simp add: bl_obj_def Let_def)
qed

lemma bl_objs_inv: "bl_inv acc \<Longrightarrow> bl_inv (foldl (bl_obj h cl dimn) acc bs)"
  by (erule foldl_inv) (rule bl_obj_inv)

lemma get_boundary_layer_data_inv:
  "distinct (bl_boundary_list (get_boundary_layer_data h s))
   \<and> distinct (concat (map boundary_of (bl_setting_list (get_boundary_layer_data h s))))"
proof -
  have "bl_inv (foldl (bl_obj h (clmax s) (dimension s)) ([], [], lg) bs)" for lg bs
    by (rule bl_objs_inv) (simp add: bl_inv_def)
  then show ?thesis
    by (simp add: get_boundary_layer_data_def Let_def bl_inv_def)
qed

lemma bl_elem_duplicate:
  assumes "fst (find_elems h sub0 search [] e0) \<in> set bl"
  shows "fst (bl_elem h b sub0 search (belem_list, bl, lg) e0) = belem_list
     \<and> fst (snd (bl_elem h b sub0 search (belem_list, bl, lg) e0)) = bl
     \<and> last (snd (snd (bl_elem h b sub0 search (belem_list, bl, lg) e0))) =
         PrintError (''The element '' @ fst (find_elems h sub0 search [] e0)
           @ '' of the mesh boundary layer '' @ bl_Name b
           @ '' has been added to another mesh  boudary layer.'' @ nl)"
  using assms
  by (auto simp add: bl_elem_def Let_def find_elems_def split: prod.splits option.splits if_splits)

lemma bl_obj_settings':
  "\<exists>new. fst (bl_obj h cl dimn acc b) = fst acc @ new"
  by (simp add: bl_obj_def Let_def)

lemma bl_objs_prefix:
  "take (length (fst acc)) (fst (foldl (bl_obj h cl dimn) acc bs)) = fst acc"
proof -
  have "\<exists>new. fst (foldl (bl_obj h cl dimn) acc bs) = fst acc @ new"
  proof (rule foldl_inv [where P = "\<lambda>a. \<exists>new. fst a = fst acc @ new"])
    show "\<exists>new. fst acc = fst acc @ new" by simp
  next
    fix a :: "setting list \<times> string list \<times> event list" and b
    assume "\<exists>new. fst a = fst acc @ new"
    then obtain new where "fst a = fst acc @ new" ..
    moreover obtain new' where "fst (bl_obj h cl dimn a b) = fst a @ new'"
      using bl_obj_settings' by blast
    ultimately show "\<exists>new. fst (bl_obj h cl dimn a b) = fst acc @ new" by simp
  qed
  then show ?thesis by auto
qed


lemma foldl_map_of:
  assumes "\<And>a x. map_of (fst (f a x)) = map_of (fst a @ g x)"
  shows "map_of (fst (foldl f a xs)) = map_of (fst a @ concat (map g xs))"
proof (induction xs arbitrary: a)
  case Nil
  show ?case by simp
next
  case (Cons x xs)
  have "map_of (fst (foldl f (f a x) xs)) = map_of (fst (f a x) @ concat (map g xs))"
    by (rule Cons.IH)
  also have "\<dots> = map_of ((fst a @ g x) @ concat (map g xs))"
    by (simp only: map_of_append assms)
  finally show ?case by simp
qed

lemma region_elem_claim:
  "map_of (fst (region_elem h mr sub0 search acc e0)) =
     map_of (fst acc @ [(fst (find_elems h sub0 search [] e0), CharacteristicLength mr)])"
proof -
  have "map_of (m @ [(e, l)]) = map_of m" if "map_of m e \<noteq> None" for m :: "(string \<times> real) list" and e l
    using that by (auto simp add: map_add_def fun_eq_iff split: option.splits)
  then show ?thesis
    by (auto simp add: region_elem_def Let_def find_elems_def split: prod.splits option.splits)
qed

lemma region_sub_claim:
  "map_of (fst (region_sub h mr acc sub)) =
     map_of (fst acc @ map (\<lambda>e0. (fst (find_elems h (fst sub) (\<not> isSame h (fst sub)) [] e0),
                                 CharacteristicLength mr)) (snd sub))"
  using foldl_map_of [of "region_elem h mr (fst sub) (\<not> isSame h (fst sub))"
      "\<lambda>e0. [(fst (find_elems h (fst sub) (\<not> isSame h (fst sub)) [] e0), CharacteristicLength mr)]"
      acc "snd sub", OF region_elem_claim]
  by (simp add: region_sub_def concat_map_singleton)

lemma region_obj_claim:
  "map_of (fst (region_obj h acc mr)) = map_of (fst acc @ region_claims h [mr])"
  using foldl_map_of [of "region_sub h mr" _ acc "mr_References mr", OF region_sub_claim]
  by (simp add: region_obj_def region_claims_def)

lemma regions_claim:
  "map_of (fst (foldl (region_obj h) acc rs)) = map_of (fst acc @ region_claims h rs)"
  using foldl_map_of [of "region_obj h" "\<lambda>mr. region_claims h [mr]" acc rs, OF region_obj_claim]
  by (simp add: region_claims_def)

lemma get_region_data_claims:
  "map_of (ele_length_map (get_region_data h s)) = map_of (region_claims h (MeshRegionList (mesh_obj s)))"
  by (simp add: get_region_data_def Let_def regions_claim region_claims_def)


text \<open>
  Claim C4. The length map that \<open>get_region_data\<close> builds is the map of the claims
  of the regions in the order of the configuration, in which the first claim of an
  element is the one that counts; a claim of an element that has a length already
  leaves the map as it is and ends with the message that the element has been added
  to another region. In \<open>get_boundary_layer_data\<close> no element occurs twice in
  \<open>bl_boundary_list\<close>, and no element occurs twice in the lists of all the settings
  taken together, so none is in the lists of two boundary layers; the settings stored
  before a boundary layer is processed stay as they are; and a claim of an element
  that is in \<open>bl_boundary_list\<close> already leaves both lists as they are and ends with the
  message that the element has been added to another boundary layer. None of these
  functions has an exceptional outcome.
\<close>

theorem first_claim_wins:
  "map_of (ele_length_map (get_region_data h s)) =
     map_of (region_claims h (MeshRegionList (mesh_obj s)))
   \<and> (map_of m (fst (find_elems h sub0 search [] e0)) \<noteq> None \<longrightarrow>
        fst (region_elem h mr sub0 search (m, lg) e0) = m
        \<and> last (snd (region_elem h mr sub0 search (m, lg) e0)) =
            PrintError (''The element '' @ fst (find_elems h sub0 search [] e0)
              @ '' of the meshregion '' @ mr_Name mr
              @ '' has been added to another mesh region.'' @ nl))
   \<and> distinct (bl_boundary_list (get_boundary_layer_data h s))
   \<and> distinct (concat (map boundary_of (bl_setting_list (get_boundary_layer_data h s))))
   \<and> take (length (fst acc)) (fst (foldl (bl_obj h cl dimn) acc bs)) = fst acc
   \<and> (fst (find_elems h sub0 search [] e0) \<in> set bl \<longrightarrow>
        fst (bl_elem h b sub0 search (belem_list, bl, lg) e0) = belem_list
        \<and> fst (snd (bl_elem h b sub0 search (belem_list, bl, lg) e0)) = bl
        \<and> last (snd (snd (bl_elem h b sub0 search (belem_list, bl, lg) e0))) =
            PrintError (''The element '' @ fst (find_elems h sub0 search [] e0)
              @ '' of the mesh boundary layer '' @ bl_Name b
              @ '' has been added to another mesh  boudary layer.'' @ nl))"
  using get_region_data_claims [of h s] region_elem_duplicate [of m h sub0 search e0 mr lg]
    get_boundary_layer_data_inv [of h s] bl_objs_prefix [of acc h cl dimn bs]
    bl_elem_duplicate [of h sub0 search e0 bl b belem_list lg]
  by blast

text \<open>The region \<open>Coarse\<close> and a second boundary layer both claim \<open>Face1\<close> after it
  has been claimed; the face keeps the length 2 of the region \<open>Fine\<close>.\<close>

theorem first_claim_wins_witness:
  "fst (region_elem linux coarse ''Box'' False ([(''Face1'', 2)], []) ''Face1'') = [(''Face1'', 2)]
   \<and> last (snd (region_elem linux coarse ''Box'' False ([(''Face1'', 2)], []) ''Face1'')) =
       PrintError (''The element Face1 of the meshregion Coarse has been added to another mesh region.'' @ nl)
   \<and> fst (bl_elem linux layer ''Box'' False ([], [''Face1''], []) ''Face1'') = []
   \<and> fst (snd (bl_elem linux layer ''Box'' False ([], [''Face1''], []) ''Face1'')) = [''Face1'']
   \<and> last (snd (snd (bl_elem linux layer ''Box'' False ([], [''Face1''], []) ''Face1''))) =
       PrintError (''The element Face1 of the mesh boundary layer Layer has been added to another mesh  boudary layer.'' @ nl)
   \<and> map_of (ele_length_map (get_region_data linux (init (box_mesh\<lparr>MeshRegionList := [fine, coarse]\<rparr>) None)))
        ''Face1'' = Some 2"
proof -
  have r: "map_of [(''Face1'', 2::real)] (fst (find_elems linux ''Box'' False [] ''Face1'')) \<noteq> None"
    by (simp add: find_elems_def)
  have b: "fst (find_elems linux ''Box'' False [] ''Face1'') \<in> set [''Face1'']"
    by (simp add: find_elems_def)
  have e: "fst (find_elems linux ''Box'' False [] ''Face1'') = ''Face1''"
    by (simp add: find_elems_def)
  have c: "map_of (region_claims linux (MeshRegionList (mesh_obj (init (box_mesh\<lparr>MeshRegionList := [fine, coarse]\<rparr>) None))))
        ''Face1'' = Some 2"
    by code_simp
  note T = first_claim_wins [of linux "init (box_mesh\<lparr>MeshRegionList := [fine, coarse]\<rparr>) None"
      "[(''Face1'', 2)]" "''Box''" False "''Face1''" coarse "[]" "([], [], [])" 0 "[]" "[]"
      "[''Face1'']" layer "[]"]
  have 1: "map_of (ele_length_map (get_region_data linux (init (box_mesh\<lparr>MeshRegionList := [fine, coarse]\<rparr>) None)))
        ''Face1'' = Some 2"
    using T c by simp
  have 2: "fst (region_elem linux coarse ''Box'' False ([(''Face1'', 2)], []) ''Face1'') = [(''Face1'', 2)]
     \<and> last (snd (region_elem linux coarse ''Box'' False ([(''Face1'', 2)], []) ''Face1'')) =
         PrintError (''The element '' @ fst (find_elems linux ''Box'' False [] ''Face1'')
              @ '' of the meshregion '' @ mr_Name coarse
              @ '' has been added to another mesh region.'' @ nl)"
    using T r by blast
  have 3: "fst (bl_elem linux layer ''Box'' False ([], [''Face1''], []) ''Face1'') = []
     \<and> fst (snd (bl_elem linux layer ''Box'' False ([], [''Face1''], []) ''Face1'')) = [''Face1'']
     \<and> last (snd (snd (bl_elem linux layer ''Box'' False ([], [''Face1''], []) ''Face1''))) =
         PrintError (''The element '' @ fst (find_elems linux ''Box'' False [] ''Face1'')
              @ '' of the mesh boundary layer '' @ bl_Name layer
              @ '' has been added to another mesh  boudary layer.'' @ nl)"
    using T b by blast
  have n: "mr_Name coarse = ''Coarse''" "bl_Name layer = ''Layer''"
    by (simp_all add: coarse_def layer_def)
  from 1 2 3 show ?thesis
    unfolding e n by simp
qed

subsection \<open>The default domain\<close>

lemma write_group_step_total:
  "snd g \<noteq> [] \<Longrightarrow> \<exists>a'. write_group_step dimn a g = Inr a'"
  by (cases "snd g") (simp_all add: write_group_step_def Let_def split: prod.splits)

lemma write_group_step_counts:
  assumes "write_group_step dimn a g = Inr a'"
  shows "domains a' = domains a + (if domain_group dimn g then 1 else 0)"
    and "physical (lines a') = physical (lines a) + (if declared g then 1 else 0)"
    and "dimn = ''3'' \<Longrightarrow> \<not> domain_group dimn g \<Longrightarrow>
           count_list (lines a') interior_volume = count_list (lines a) interior_volume"
    and "dimn = ''2'' \<Longrightarrow> \<not> domain_group dimn g \<Longrightarrow>
           count_list (lines a') interior_surface = count_list (lines a) interior_surface"
proof -
  obtain g0 gs where g: "snd g = g0 # gs"
    using assms by (cases "snd g") (simp_all add: write_group_step_def Let_def)
  show "domains a' = domains a + (if domain_group dimn g then 1 else 0)"
    using assms g
    by (auto simp add: write_group_step_def Let_def domain_group_def group_kind_def
        split: if_splits)
  show "physical (lines a') = physical (lines a) + (if declared g then 1 else 0)"
    using assms g
    by (auto simp add: write_group_step_def Let_def declared_def group_kind_def physical_def
        startswith_def split: if_splits)
  show "count_list (lines a') interior_volume = count_list (lines a) interior_volume"
    if "dimn = ''3''" "\<not> domain_group dimn g"
    using assms g that
    by (auto simp add: write_group_step_def Let_def domain_group_def group_kind_def
        interior_volume_def split: if_splits)
  show "count_list (lines a') interior_surface = count_list (lines a) interior_surface"
    if "dimn = ''2''" "\<not> domain_group dimn g"
    using assms g that
    by (auto simp add: write_group_step_def Let_def domain_group_def group_kind_def
        interior_surface_def split: if_splits)
qed


lemma write_group_loop_total:
  "list_all (\<lambda>g. snd g \<noteq> []) gs \<Longrightarrow> \<exists>a'. write_group_loop dimn a gs = Inr a'"
proof (induction gs arbitrary: a)
  case Nil
  show ?case by simp
next
  case (Cons g gs)
  then obtain a1 where "write_group_step dimn a g = Inr a1"
    using write_group_step_total [of g dimn a] by auto
  with Cons show ?case by simp
qed

lemma write_group_loop_counts:
  "write_group_loop dimn a gs = Inr a' \<Longrightarrow>
     domains a' = domains a + length (filter (domain_group dimn) gs)
     \<and> physical (lines a') = physical (lines a) + length (filter declared gs)
     \<and> (dimn = ''3'' \<and> filter (domain_group dimn) gs = [] \<longrightarrow>
          count_list (lines a') interior_volume = count_list (lines a) interior_volume)
     \<and> (dimn = ''2'' \<and> filter (domain_group dimn) gs = [] \<longrightarrow>
          count_list (lines a') interior_surface = count_list (lines a) interior_surface)"
proof (induction gs arbitrary: a)
  case Nil
  then show ?case by simp
next
  case (Cons g gs)
  from Cons.prems obtain a1 where step: "write_group_step dimn a g = Inr a1"
    and rest: "write_group_loop dimn a1 gs = Inr a'"
    by (auto split: sum.splits)
  note s = write_group_step_counts [OF step]
  note r = Cons.IH [OF rest]
  show ?case
  proof (intro conjI impI)
    show "domains a' = domains a + length (filter (domain_group dimn) (g # gs))"
      using r s(1) by simp
    show "physical (lines a') = physical (lines a) + length (filter declared (g # gs))"
      using r s(2) by simp
    show "count_list (lines a') interior_volume = count_list (lines a) interior_volume"
      if "dimn = ''3'' \<and> filter (domain_group dimn) (g # gs) = []"
    proof -
      from that have "\<not> domain_group dimn g" "filter (domain_group dimn) gs = []"
        by (auto split: if_splits)
      with that r s(3) show ?thesis by simp
    qed
    show "count_list (lines a') interior_surface = count_list (lines a) interior_surface"
      if "dimn = ''2'' \<and> filter (domain_group dimn) (g # gs) = []"
    proof -
      from that have "\<not> domain_group dimn g" "filter (domain_group dimn) gs = []"
        by (auto split: if_splits)
      with that r s(4) show ?thesis by simp
    qed
  qed
qed

lemma physical_append: "physical (xs @ ys) = physical xs + physical ys"
  by (simp add: physical_def)

text \<open>
  Claim C5. \<open>write_group\<close> returns when every group has an element. Whenever
  it returns: if the dimension is 3 and no group is a group of solids, exactly one of
  the lines written is \<open>Physical Volume("Interior") = {1};\<close>; if the dimension is 2 and
  no group is a group of faces, exactly one is \<open>Physical Surface("Interior") = {1};\<close>;
  and the number of \<open>Physical\<close> declarations written is the number of groups of solids,
  faces or edges, plus one in the two cases above and plus nothing otherwise, so that no
  declaration is added when a group declares a domain of the dimension.
\<close>

theorem interior_fallback:
  "(list_all (\<lambda>g. snd g \<noteq> []) (group_elements s) \<longrightarrow> (\<exists>ls ms. write_group s = Inr (ls, ms)))
   \<and> (write_group s = Inr (ls, ms) \<longrightarrow>
        (dimension s = ''3'' \<and> filter (domain_group (dimension s)) (group_elements s) = [] \<longrightarrow>
           count_list ls interior_volume = 1)
        \<and> (dimension s = ''2'' \<and> filter (domain_group (dimension s)) (group_elements s) = [] \<longrightarrow>
           count_list ls interior_surface = 1)
        \<and> physical ls = length (filter declared (group_elements s))
             + (if filter (domain_group (dimension s)) (group_elements s) = []
                   \<and> (dimension s = ''3'' \<or> dimension s = ''2'') then 1 else 0))"
proof (intro conjI impI)
  let ?a0 = "\<lparr>lines = (if group_elements s \<noteq> [] then [''// group data '' @ nl] else []),
              domains = 0, boundaries = 0, msgs = []\<rparr>"
  show "\<exists>ls ms. write_group s = Inr (ls, ms)" if ne: "list_all (\<lambda>g. snd g \<noteq> []) (group_elements s)"
  proof -
    obtain a where "write_group_loop (dimension s) ?a0 (group_elements s) = Inr a"
      using write_group_loop_total [OF ne] by blast
    then show ?thesis by (simp add: write_group_def)
  qed
  assume w: "write_group s = Inr (ls, ms)"
  then obtain a where loop: "write_group_loop (dimension s) ?a0 (group_elements s) = Inr a"
    by (auto simp add: write_group_def split: sum.splits)
  note c = write_group_loop_counts [OF loop]
  have ls: "ls = lines a
               @ (if domains a = 0 then
                    (if dimension s = ''3'' then [interior_volume] else [])
                    @ (if dimension s = ''2'' then [interior_surface] else [])
                  else [])
               @ [nl @ nl]
               @ (if analysis s \<noteq> None \<and> OutputFormat (mesh_obj s) = ''I-Deas universal'' then
                    [''// For each group save not only the elements but the nodes too.;'' @ nl,
                     ''Mesh.SaveGroupsOfNodes = 1;'' @ nl,
                     ''// Needed for Group meshing too, because for one material there is no group defined;'' @ nl,
                     ''// Ignore Physical definitions and save all elements, if Mesh.SaveAll = 1;'' @ nl,
                     ''Mesh.SaveAll = 1;'' @ nl,
                     nl @ nl]
                  else [])"
    using w loop by (simp add: write_group_def)
  have d: "domains a = length (filter (domain_group (dimension s)) (group_elements s))"
    using c by simp
  have p0: "physical (lines ?a0) = 0" and v0: "count_list (lines ?a0) interior_volume = 0"
    and s0: "count_list (lines ?a0) interior_surface = 0"
    by (simp_all add: physical_def startswith_def interior_volume_def interior_surface_def)
  show "count_list ls interior_volume = 1"
    if "dimension s = ''3'' \<and> filter (domain_group (dimension s)) (group_elements s) = []"
  proof -
    have "count_list (lines a) interior_volume = count_list (lines ?a0) interior_volume"
      using c that by blast
    then have cnt: "count_list (lines a) interior_volume = 0"
      using v0 by simp
    from that have d3: "dimension s = ''3''" by simp
    from that d have dz: "domains a = 0" by auto
    show ?thesis
      unfolding ls using cnt d3 dz by (simp add: interior_volume_def interior_surface_def nl_def)
  qed
  show "count_list ls interior_surface = 1"
    if "dimension s = ''2'' \<and> filter (domain_group (dimension s)) (group_elements s) = []"
  proof -
    have "count_list (lines a) interior_surface = count_list (lines ?a0) interior_surface"
      using c that by blast
    then have cnt: "count_list (lines a) interior_surface = 0"
      using s0 by simp
    from that have d3: "dimension s = ''2''" by simp
    from that d have dz: "domains a = 0" by auto
    show ?thesis
      unfolding ls using cnt d3 dz by (simp add: interior_volume_def interior_surface_def nl_def)
  qed
  show "physical ls = length (filter declared (group_elements s))
             + (if filter (domain_group (dimension s)) (group_elements s) = []
                   \<and> (dimension s = ''3'' \<or> dimension s = ''2'') then 1 else 0)"
  proof -
    have "physical (lines a) = physical (lines ?a0) + length (filter declared (group_elements s))"
      using c by blast
    then have "physical (lines a) = length (filter declared (group_elements s))"
      using p0 by simp
    moreover have "(filter (domain_group (dimension s)) (group_elements s) = []) = (domains a = 0)"
      using d by simp
    ultimately show ?thesis
      unfolding ls physical_append
      by (simp add: physical_def startswith_def interior_volume_def interior_surface_def nl_def)
  qed
qed


text \<open>With a group of faces and a group of edges on the solid box, the script has
  three declarations, one of them the interior volume.\<close>

theorem interior_fallback_witness:
  "\<exists>ls ms. write_group walls = Inr (ls, ms) \<and> count_list ls interior_volume = 1 \<and> physical ls = 3"
proof -
  have ne: "list_all (\<lambda>g. snd g \<noteq> []) (group_elements walls)"
    by code_simp
  have d: "dimension walls = ''3''"
    by code_simp
  have f: "filter (domain_group (dimension walls)) (group_elements walls) = []"
    by code_simp
  have n: "length (filter declared (group_elements walls)) = 2"
    by code_simp
  from interior_fallback [of walls] ne obtain ls ms where w: "write_group walls = Inr (ls, ms)"
    by blast
  from interior_fallback [of walls ls ms] w d f
  have "count_list ls interior_volume = 1"
    and "physical ls = length (filter declared (group_elements walls))
             + (if filter (domain_group (dimension walls)) (group_elements walls) = []
                   \<and> (dimension walls = ''3'' \<or> dimension walls = ''2'') then 1 else 0)"
    by blast+
  with w d f n show ?thesis
    by simp
qed

subsection \<open>What the stages leave unchanged\<close>

lemma scripts_loud: "scripts (loud es) = scripts es"
  unfolding loud_def by (induction es rule: scripts.induct) simp_all

lemma spawned_loud: "spawned (loud es) = spawned es"
  unfolding loud_def by (induction es rule: spawned.induct) simp_all

lemma reads_loud: "reads (loud es) = reads es"
  unfolding loud_def by (induction es rule: reads.induct) simp_all

lemma loud_append: "loud (xs @ ys) = loud xs @ loud ys"
  by (simp add: loud_def)

lemma loud_find_elems: "find_elems h sub0 search msg e0 = (el, ms) \<Longrightarrow> loud ms = []"
  by (auto simp add: find_elems_def loud_def split: option.splits if_splits)

lemma loud_msg [simp]: "loud [PrintError m] = []"
  by (simp add: loud_def)

lemma kept_get_dimension: "kept (get_dimension s) = kept s"
  by (simp add: kept_def get_dimension_def Let_def emit_def loud_def)

lemma kept_get_tmp_file_paths: "kept (snd (get_tmp_file_paths h s)) = kept s"
  by (simp add: kept_def get_tmp_file_paths_def Let_def split: option.splits)

lemma kept_get_gmsh_command: "kept (snd (get_gmsh_command h s)) = kept s"
  by (simp add: kept_def get_gmsh_command_def Let_def emit_def loud_def split: process.splits)

lemma kept_write_part_file: "kept (snd (write_part_file h s)) = kept s"
  by (simp add: kept_def write_part_file_def attr_def emit_def loud_def split: option.splits)

lemma loud_add_groups: "loud (snd (add_groups acc new)) = loud (snd acc)"
  unfolding add_groups_def
  by (rule foldl_inv [where P = "\<lambda>a. loud (snd a) = loud (snd acc)"])
     (auto simp add: loud_def split: prod.splits)

lemma kept_get_group_data: "kept (get_group_data h s) = kept s"
proof -
  have "loud (snd (foldl (\<lambda>acc mg. add_groups acc (get_mesh_group_elements h mg)) a mgs)) = loud (snd a)"
    for a mgs
    by (rule foldl_inv [where P = "\<lambda>b. loud (snd b) = loud (snd a)"]) (simp_all add: loud_add_groups)
  then show ?thesis
    by (simp add: kept_def get_group_data_def Let_def loud_add_groups split: option.splits)
qed

lemma loud_region_obj: "loud (snd (region_obj h acc mr)) = loud (snd acc)"
proof -
  have e: "loud (snd (region_elem h mr sub0 search a e0)) = loud (snd a)" for sub0 search a e0
    by (auto simp add: region_elem_def Let_def loud_append split: prod.splits dest: loud_find_elems)
  have s: "loud (snd (region_sub h mr a sub)) = loud (snd a)" for a sub
    unfolding region_sub_def
    by (rule foldl_inv [where P = "\<lambda>b. loud (snd b) = loud (snd a)"]) (simp_all add: e)
  have "loud (snd (foldl (region_sub h mr) acc subs)) = loud (snd acc)" for subs
    by (rule foldl_inv [where P = "\<lambda>b. loud (snd b) = loud (snd acc)"]) (simp_all add: s)
  then show ?thesis
    by (simp add: region_obj_def loud_def)
qed

lemma kept_get_region_data: "kept (get_region_data h s) = kept s"
proof -
  have "loud (snd (foldl (region_obj h) a rs)) = loud (snd a)" for a rs
    by (rule foldl_inv [where P = "\<lambda>b. loud (snd b) = loud (snd a)"]) (simp_all add: loud_region_obj)
  then show ?thesis
    by (simp add: kept_def get_region_data_def Let_def split_compound_warning_def loud_def)
qed

lemma loud_bl_obj: "loud (snd (snd (bl_obj h cl dimn acc b))) = loud (snd (snd acc))"
proof -
  have e: "loud (snd (snd (bl_elem h b sub0 search a e0))) = loud (snd (snd a))" for sub0 search a e0
    by (auto simp add: bl_elem_def Let_def loud_append split: prod.splits dest: loud_find_elems)
  have s: "loud (snd (snd (bl_sub h b a sub))) = loud (snd (snd a))" for a sub
    unfolding bl_sub_def
    by (rule foldl_inv [where P = "\<lambda>c. loud (snd (snd c)) = loud (snd (snd a))"]) (simp_all add: e)
  have f: "loud (snd (snd (foldl (bl_sub h b) a subs))) = loud (snd (snd a))" for a subs
    by (rule foldl_inv [where P = "\<lambda>c. loud (snd (snd c)) = loud (snd (snd a))"]) (simp_all add: s)
  have t: "loud (snd (bl_setting cl dimn b bel)) = []" for bel
    by (simp add: bl_setting_def Let_def loud_def)
  show ?thesis
    by (simp add: bl_obj_def Let_def loud_append f t)
qed

lemma kept_get_boundary_layer_data: "kept (get_boundary_layer_data h s) = kept s"
proof -
  have "loud (snd (snd (foldl (bl_obj h cl dimn) a bs))) = loud (snd (snd a))" for a bs cl dimn
    by (rule foldl_inv [where P = "\<lambda>c. loud (snd (snd c)) = loud (snd (snd a))"])
       (simp_all add: loud_bl_obj)
  then show ?thesis
    by (simp add: kept_def get_boundary_layer_data_def Let_def loud_def)
qed

lemma seq_proj:
  assumes "\<And>s. f (snd (a s)) = f s" and "\<And>s. f (snd (b s)) = f s"
  shows "f (snd (seq a b s)) = f s"
proof (cases "a s")
  case (Pair r s1)
  then have "f s1 = f s" using assms(1) [of s] by simp
  with Pair assms(2) [of s1] show ?thesis
    by (cases r) (simp_all add: seq_def)
qed

lemma total_proj: "(\<And>s. f (g s) = f s) \<Longrightarrow> f (snd (total g s)) = f s"
  by (simp add: total_def)

lemma write_geo_result:
  "write_geo h scaling s = (r, s') \<Longrightarrow>
     (\<exists>e. r = Some e \<and> s' = s)
     \<or> (\<exists>geo text ms. r = None \<and> temp_file_geo s = Some geo
           \<and> geo_text h scaling s geo = Inr (text, ms)
           \<and> s' = s\<lparr>out := out s @ ms @ [WriteFile geo text]\<rparr>)"
  by (auto simp add: write_geo_def attr_def split: option.splits sum.splits)

lemma then_lines_Inr:
  "then_lines a b = Inr zs \<longleftrightarrow> (\<exists>xs ys. a = Inr xs \<and> b = Inr ys \<and> zs = xs @ ys)"
  by (auto simp add: then_lines_def split: sum.splits)

lemma write_group_step_msgs: "write_group_step dimn a g = Inr a' \<Longrightarrow> loud (msgs a') = loud (msgs a)"
  by (cases "snd g")
     (auto simp add: write_group_step_def Let_def loud_def split: if_splits)

lemma write_group_loop_msgs: "write_group_loop dimn a gs = Inr a' \<Longrightarrow> loud (msgs a') = loud (msgs a)"
proof (induction gs arbitrary: a)
  case Nil
  then show ?case by simp
next
  case (Cons g gs)
  from Cons.prems obtain a1 where step: "write_group_step dimn a g = Inr a1"
    and rest: "write_group_loop dimn a1 gs = Inr a'"
    by (auto split: sum.splits)
  from Cons.IH [OF rest] write_group_step_msgs [OF step] show ?case by simp
qed

lemma write_group_msgs: "write_group s = Inr (ls, ms) \<Longrightarrow> loud ms = []"
  by (auto simp add: write_group_def loud_append split: sum.splits dest!: write_group_loop_msgs)
     (simp_all add: loud_def)

lemma geo_text_Inr:
  assumes "geo_text h scaling s geo = Inr (text, ms)"
  shows "\<exists>part1 group_part tail.
        text = part1 @ group_part @ write_boundary_layer h s @ option_lines h s
                 @ algorithm_lines s @ meshing_lines h s @ tail
        \<and> write_group s = Inr (group_part, ms)"
proof -
  from assms obtain brep where 1: "attr ''temp_file_geometry'' (temp_file_geometry s) = Inr brep"
    by (cases "attr ''temp_file_geometry'' (temp_file_geometry s)") (simp_all add: geo_text_def)
  from assms 1 obtain part1 where
    2: "then_lines (Inr (header_lines h scaling brep)) (length_lines h s) = Inr part1"
    by (cases "then_lines (Inr (header_lines h scaling brep)) (length_lines h s)")
       (simp_all add: geo_text_def)
  from assms 1 2 obtain gp gm where 3: "write_group s = Inr (gp, gm)"
    by (cases "write_group s") (auto simp add: geo_text_def)
  let ?rest = "then_lines (output_lines s)
                (case attr ''gmsh_bin'' (gmsh_bin s) of
                   Inl e \<Rightarrow> Inl e
                 | Inr bin \<Rightarrow> Inr (footer_lines bin geo))"
  let ?body = "part1 @ gp @ write_boundary_layer h s @ option_lines h s
                   @ algorithm_lines s @ meshing_lines h s"
  from assms 1 2 3 have 4: "then_lines (Inr ?body) ?rest = Inr text" and 5: "gm = ms"
    by (cases "then_lines (Inr ?body) ?rest"; simp add: geo_text_def)+
  from 4 obtain tail where "text = ?body @ tail"
    by (auto simp add: then_lines_Inr)
  with 3 5 show ?thesis by auto
qed

lemma geo_text_lines:
  assumes "geo_text h scaling s geo = Inr (text, ms)"
  shows "set (algorithm_lines s) \<subseteq> set text" and "set (meshing_lines h s) \<subseteq> set text"
    and "loud ms = []"
proof -
  from geo_text_Inr [OF assms] obtain part1 group_part tail where
    t: "text = part1 @ group_part @ write_boundary_layer h s @ option_lines h s
                 @ algorithm_lines s @ meshing_lines h s @ tail"
    and g: "write_group s = Inr (group_part, ms)"
    by blast
  show "set (algorithm_lines s) \<subseteq> set text" and "set (meshing_lines h s) \<subseteq> set text"
    unfolding t by auto
  show "loud ms = []"
    using g by (rule write_group_msgs)
qed

lemma seq_assoc: "seq (seq a b) c = seq a (seq b c)"
  by (auto simp add: seq_def fun_eq_iff split: prod.splits option.splits)

lemma prepare_front:
  "prepare h scaling = seq (total get_dimension) (seq (front h) (write_geo h scaling))"
  by (simp add: prepare_def front_def seq_assoc)

lemma kept_front: "kept (snd (front h s)) = kept s"
  unfolding front_def
  by (intro seq_proj total_proj kept_get_tmp_file_paths kept_get_gmsh_command kept_get_group_data
      kept_get_region_data kept_get_boundary_layer_data kept_write_part_file)

lemma dimension_front: "dimension (snd (front h s)) = dimension s"
  unfolding front_def
proof (intro seq_proj total_proj)
  show "dimension (snd (get_tmp_file_paths h s)) = dimension s" for s
    by (simp add: get_tmp_file_paths_def Let_def split: option.splits)
  show "dimension (snd (get_gmsh_command h s)) = dimension s" for s
    by (simp add: get_gmsh_command_def Let_def emit_def split: process.splits)
  show "dimension (get_group_data h s) = dimension s" for s
    by (simp add: get_group_data_def Let_def)
  show "dimension (get_region_data h s) = dimension s" for s
    by (simp add: get_region_data_def Let_def)
  show "dimension (get_boundary_layer_data h s) = dimension s" for s
    by (simp add: get_boundary_layer_data_def Let_def)
  show "dimension (snd (write_part_file h s)) = dimension s" for s
    by (simp add: write_part_file_def attr_def emit_def split: option.splits)
qed

lemma prepare_result:
  assumes "prepare h scaling s = (r, s')"
  shows "mesh_obj s' = mesh_obj s \<and> part_obj s' = part_obj s \<and> algorithm2D s' = algorithm2D s
     \<and> algorithm3D s' = algorithm3D s \<and> gmsh_command s' = gmsh_command s
     \<and> dimension s' = dimension (get_dimension s)
     \<and> ((\<exists>e. r = Some e \<and> loud (out s') = loud (out s))
        \<or> (r = None \<and> (\<exists>geo text. temp_file_geo s' = Some geo
              \<and> loud (out s') = loud (out s) @ [WriteFile geo text]
              \<and> set (algorithm_lines s') \<subseteq> set text \<and> set (meshing_lines h s') \<subseteq> set text)))"
proof -
  obtain r1 s1 where f: "front h (get_dimension s) = (r1, s1)"
    by (cases "front h (get_dimension s)")
  have k1: "kept s1 = kept s"
    using kept_front [of h "get_dimension s"] f by (simp add: kept_get_dimension)
  have d1: "dimension s1 = dimension (get_dimension s)"
    using dimension_front [of h "get_dimension s"] f by simp
  show ?thesis
  proof (cases r1)
    case (Some e)
    with assms f have "r = Some e" "s' = s1"
      by (simp_all add: prepare_front seq_def total_def)
    with k1 d1 show ?thesis by (simp add: kept_def)
  next
    case None
    with assms f have w: "write_geo h scaling s1 = (r, s')"
      by (simp add: prepare_front seq_def total_def)
    from write_geo_result [OF w] consider
      (err) e where "r = Some e" "s' = s1"
    | (ok) geo body ms where "r = None" "temp_file_geo s1 = Some geo"
        "geo_text h scaling s1 geo = Inr (body, ms)"
        "s' = s1\<lparr>out := out s1 @ ms @ [WriteFile geo body]\<rparr>"
      by blast
    then show ?thesis
    proof cases
      case err
      with k1 d1 show ?thesis by (simp add: kept_def)
    next
      case ok
      note g = geo_text_lines [OF ok(3)]
      have "algorithm_lines s' = algorithm_lines s1" "meshing_lines h s' = meshing_lines h s1"
        using ok(4) by (simp_all add: algorithm_lines_def meshing_lines_def)
      moreover have "loud (out s') = loud (out s1) @ [WriteFile geo body]"
        using ok(4) g(3) by (simp add: loud_append) (simp add: loud_def)
      ultimately show ?thesis
        using k1 d1 ok g by (simp add: kept_def)
    qed
  qed
qed

lemma run_gmsh_with_geo_result:
  assumes "run_gmsh_with_geo h s = (r, s1)"
  shows "mesh_obj s1 = mesh_obj s \<and> temp_file_mesh s1 = temp_file_mesh s
     \<and> temp_file_geometry s1 = temp_file_geometry s
     \<and> ((\<exists>e. r = Inl e \<and> loud (out s1) = loud (out s))
        \<or> (\<exists>bin geo rc so se. r = Inr se \<and> gmsh_bin s = Some bin \<and> temp_file_geo s = Some geo
              \<and> run_gmsh h [bin, ''-'', geo] = Exited rc so se \<and> \<not> error_flag s1
              \<and> loud (out s1) = loud (out s) @ [Popen [bin, ''-'', geo]])
        \<or> (\<exists>bin geo msg. r = Inr msg \<and> msg \<noteq> [] \<and> gmsh_bin s = Some bin
              \<and> temp_file_geo s = Some geo \<and> run_gmsh h [bin, ''-'', geo] = NotStarted
              \<and> error_flag s1 \<and> loud (out s1) = loud (out s)))"
  using assms
  by (auto simp add: run_gmsh_with_geo_def Let_def attr_def emit_def loud_def
      split: option.splits process.splits)

lemma read_and_set_new_mesh_result:
  assumes "read_and_set_new_mesh h s = (r, s2)"
  shows "(error_flag s \<longrightarrow> mesh_obj s2 = mesh_obj s \<and> loud (out s2) = loud (out s))
     \<and> (\<not> error_flag s \<longrightarrow>
          (\<exists>e. r = Some e \<and> mesh_obj s2 = mesh_obj s \<and> loud (out s2) = loud (out s))
          \<or> (\<exists>f m. temp_file_mesh s = Some f \<and> Fem_read h f = Inr m
                \<and> mesh_obj s2 = (mesh_obj s)\<lparr>FemMesh := m\<rparr>
                \<and> loud (out s2) = loud (out s) @ [FemRead f]))"
  using assms
  by (auto simp add: read_and_set_new_mesh_def Let_def attr_def emit_def loud_def
      split: option.splits sum.splits if_splits)

lemma create_mesh_cases:
  assumes "create_mesh h s = (r, s')"
  obtains (stopped) e where "prepare h False s = (Some e, s')" "r = Inl e"
  | (not_run) s1 e where "prepare h False s = (None, s1)" "run_gmsh_with_geo h s1 = (Inl e, s')"
      "r = Inl e"
  | (ran) s1 s2 msg ro where "prepare h False s = (None, s1)"
      "run_gmsh_with_geo h s1 = (Inr msg, s2)" "read_and_set_new_mesh h s2 = (ro, s')"
      "r = (case ro of Some e \<Rightarrow> Inl e | None \<Rightarrow> Inr msg)"
  using assms
  by (auto simp add: create_mesh_def andthen_def split: prod.splits option.splits sum.splits)

lemma algorithm3D_line: "''Mesh.Algorithm3D = '' @ algorithm3D s @ '';'' @ nl \<in> set (algorithm_lines s)"
  by (simp add: algorithm_lines_def)

lemma mesh_line: "''Mesh  '' @ dimension s @ '';'' @ nl \<in> set (meshing_lines h s)"
  by (simp add: meshing_lines_def)

lemma observations:
  "scripts (out s) = scripts (loud (out s))" "spawned (out s) = spawned (loud (out s))"
  "reads (out s) = reads (loud (out s))"
  by (simp_all add: scripts_loud spawned_loud reads_loud)

lemma scripts_append: "scripts (xs @ ys) = scripts xs @ scripts ys"
  by (induction xs rule: scripts.induct) simp_all

lemma spawned_append: "spawned (xs @ ys) = spawned xs @ spawned ys"
  by (induction xs rule: spawned.induct) simp_all

lemma reads_append: "reads (xs @ ys) = reads xs @ reads ys"
  by (induction xs rule: reads.induct) simp_all

lemma prepared_script:
  assumes "prepare h scaling s = (None, s1)"
  obtains geo body where "temp_file_geo s1 = Some geo"
    "loud (out s1) = loud (out s) @ [WriteFile geo body]"
    "''Mesh.Algorithm3D = '' @ algorithm3D s @ '';'' @ nl \<in> set body"
    "''Mesh  '' @ dimension (get_dimension s) @ '';'' @ nl \<in> set body"
proof -
  from prepare_result [OF assms] obtain geo body where g: "temp_file_geo s1 = Some geo"
    "loud (out s1) = loud (out s) @ [WriteFile geo body]"
    "set (algorithm_lines s1) \<subseteq> set body" "set (meshing_lines h s1) \<subseteq> set body"
    and a: "algorithm3D s1 = algorithm3D s" and d: "dimension s1 = dimension (get_dimension s)"
    by auto
  from algorithm3D_line [of s1] mesh_line [of s1 h] g(3,4) a d
  have "''Mesh.Algorithm3D = '' @ algorithm3D s @ '';'' @ nl \<in> set body"
    "''Mesh  '' @ dimension (get_dimension s) @ '';'' @ nl \<in> set body"
    by auto
  with g(1,2) show ?thesis by (rule that)
qed

lemma create_mesh_scripts:
  assumes "create_mesh h s = (r, s')"
  shows "scripts (out s') = scripts (out s)
     \<or> (\<exists>geo body. scripts (out s') = scripts (out s) @ [(geo, body)]
           \<and> ''Mesh.Algorithm3D = '' @ algorithm3D s @ '';'' @ nl \<in> set body
           \<and> ''Mesh  '' @ dimension (get_dimension s) @ '';'' @ nl \<in> set body)"
  using assms
proof (cases rule: create_mesh_cases)
  case (stopped e)
  from prepare_result [OF stopped(1)] have "loud (out s') = loud (out s)" by auto
  then show ?thesis by (simp add: observations)
next
  case (not_run s1 e)
  from prepared_script [OF not_run(1)] obtain geo body where
    g: "loud (out s1) = loud (out s) @ [WriteFile geo body]"
    "''Mesh.Algorithm3D = '' @ algorithm3D s @ '';'' @ nl \<in> set body"
    "''Mesh  '' @ dimension (get_dimension s) @ '';'' @ nl \<in> set body"
    by blast
  from run_gmsh_with_geo_result [OF not_run(2)] have "loud (out s') = loud (out s1)" by auto
  with g show ?thesis by (auto simp add: observations scripts_append)
next
  case (ran s1 s2 msg ro)
  from prepared_script [OF ran(1)] obtain geo body where
    g: "loud (out s1) = loud (out s) @ [WriteFile geo body]"
    "''Mesh.Algorithm3D = '' @ algorithm3D s @ '';'' @ nl \<in> set body"
    "''Mesh  '' @ dimension (get_dimension s) @ '';'' @ nl \<in> set body"
    by blast
  from run_gmsh_with_geo_result [OF ran(2)] have "scripts (loud (out s2)) = scripts (loud (out s1))"
    by (auto simp add: scripts_append)
  moreover from read_and_set_new_mesh_result [OF ran(3)]
  have "scripts (loud (out s')) = scripts (loud (out s2))"
    by (cases "error_flag s2") (auto simp add: scripts_append)
  ultimately show ?thesis
    using g by (auto simp add: observations scripts_append)
qed

subsection \<open>The 3D algorithm\<close>

text \<open>
  Claim C10. The code of the 3D algorithm that \<open>__init__\<close> resolves depends on the
  field \<open>Algorithm2D\<close> of the mesh object and on nothing else: two mesh objects with the
  same \<open>Algorithm2D\<close> get the same code, whatever their other properties are.
  \<open>Frontal\<close> gives 4, a name outside the table of the 3D names gives 1, and every
  script that \<open>create_mesh\<close> writes has the line \<open>Mesh.Algorithm3D = \<close> with this code.
\<close>

theorem algorithm3D_from_algorithm2D:
  "(Algorithm2D m = Algorithm2D m' \<longrightarrow> algorithm3D (init m an) = algorithm3D (init m' an'))
   \<and> (Algorithm2D m = ''Frontal'' \<longrightarrow> algorithm3D (init m an) = ''4'')
   \<and> (Algorithm2D m \<notin> set [''Automatic'', ''Delaunay'', ''New Delaunay'', ''Frontal'',
          ''Frontal Delaunay'', ''Frontal Hex'', ''MMG3D'', ''R-tree'']
        \<longrightarrow> algorithm3D (init m an) = ''1'')
   \<and> (\<forall>(geo, body) \<in> set (scripts (out (snd (create_mesh h (init m an))))).
        ''Mesh.Algorithm3D = '' @ algorithm3D (init m an) @ '';'' @ nl \<in> set body)"
proof (intro conjI impI)
  show "algorithm3D (init m an) = algorithm3D (init m' an')" if "Algorithm2D m = Algorithm2D m'"
    using that by (simp add: init_def)
  show "algorithm3D (init m an) = ''4''" if "Algorithm2D m = ''Frontal''"
    using that by (simp add: init_def resolve_algorithm3D_def)
  show "algorithm3D (init m an) = ''1''"
    if "Algorithm2D m \<notin> set [''Automatic'', ''Delaunay'', ''New Delaunay'', ''Frontal'',
          ''Frontal Delaunay'', ''Frontal Hex'', ''MMG3D'', ''R-tree'']"
    using that by (simp add: init_def resolve_algorithm3D_def)
  have "scripts (out (init m an)) = []"
    by (simp add: init_def resolve_order_def)
  with create_mesh_scripts [of h "init m an" "fst (create_mesh h (init m an))" "snd (create_mesh h (init m an))"]
  show "\<forall>(geo, body) \<in> set (scripts (out (snd (create_mesh h (init m an))))).
        ''Mesh.Algorithm3D = '' @ algorithm3D (init m an) @ '';'' @ nl \<in> set body"
    by auto
qed

text \<open>On the box with \<open>Algorithm2D = Frontal\<close> the script has \<open>Mesh.Algorithm3D = 4;\<close>.\<close>

theorem algorithm3D_frontal:
  "algorithm3D (snd frontal_run) = ''4''
   \<and> map (\<lambda>(geo, body). ''Mesh.Algorithm3D = 4;'' @ nl \<in> set body) (scripts (out (snd frontal_run))) = [True]"
proof -
  have a: "Algorithm2D (box_mesh\<lparr>Algorithm2D := ''Frontal''\<rparr>) = ''Frontal''"
    by simp
  have n: "length (scripts (out (snd frontal_run))) = 1" and k: "algorithm3D (snd frontal_run) = ''4''"
    by code_simp+
  from algorithm3D_from_algorithm2D [of "box_mesh\<lparr>Algorithm2D := ''Frontal''\<rparr>" _ None _ linux] a
  have i: "algorithm3D (init (box_mesh\<lparr>Algorithm2D := ''Frontal''\<rparr>) None) = ''4''"
    and s: "\<forall>(geo, body) \<in> set (scripts (out (snd frontal_run))).
        ''Mesh.Algorithm3D = '' @ algorithm3D (init (box_mesh\<lparr>Algorithm2D := ''Frontal''\<rparr>) None) @ '';'' @ nl \<in> set body"
    unfolding frontal_run_def by blast+
  from n obtain x where x: "scripts (out (snd frontal_run)) = [x]"
    by (cases "scripts (out (snd frontal_run))") auto
  with s i k show ?thesis
    by (cases x) simp
qed

subsection \<open>The 2D algorithm with a boundary layer\<close>

text \<open>
  Claim C3 against the code. The solid box with one boundary layer resolves to
  dimension \<open>'3'\<close> and has one setting, and the only \<open>Mesh.Algorithm\<close> line of its
  script is the configured code 2, not \<open>DelQuad\<close>: the test of line 579 compares the
  string \<open>self.dimension\<close> with the integer 3 and is never true.
\<close>

theorem layered_run_algorithm:
  "dimension (snd layered_run) = ''3'' \<and> length (bl_setting_list (snd layered_run)) = 1
   \<and> map (\<lambda>(geo, body). filter (\<lambda>l. startswith l ''Mesh.Algorithm = '') body)
        (scripts (out (snd layered_run))) = [[''Mesh.Algorithm = 2;'' @ nl]]"
  by code_simp


subsection \<open>A shape without a dimension\<close>

lemma get_dimension_unmeshable:
  assumes "dimension s = ''From Shape''"
    and "ShapeType (part_obj s) \<notin> set [''Solid'', ''CompSolid'', ''Face'', ''Shell'', ''Edge'', ''Wire'', ''Compound'']"
  shows "dimension (get_dimension s) = ''0''"
    and "out (get_dimension s) = out s @
       [PrintError (if ShapeType (part_obj s) = ''Vertex'' then ''You can not mesh a Vertex.'' @ nl
                    else ''Could not retrive Dimension from shape type. Please choose dimension.'')]"
  using assms by (simp_all add: get_dimension_def Let_def emit_def)

lemma create_mesh_returns:
  assumes "create_mesh h s = (Inr msg, s')"
  shows "\<exists>geo body bin. scripts (out s') = scripts (out s) @ [(geo, body)]
     \<and> ''Mesh  '' @ dimension (get_dimension s) @ '';'' @ nl \<in> set body
     \<and> (spawned (out s') = spawned (out s) @ [[bin, ''-'', geo]]
        \<or> run_gmsh h [bin, ''-'', geo] = NotStarted)"
  using assms
proof (cases rule: create_mesh_cases)
  case (stopped e)
  then show ?thesis by simp
next
  case (not_run s1 e)
  then show ?thesis by simp
next
  case (ran s1 s2 m ro)
  from ran(4) have m: "m = msg" and ro: "ro = None"
    by (cases ro; simp)+
  from prepared_script [OF ran(1)] obtain geo body where
    g: "temp_file_geo s1 = Some geo" "loud (out s1) = loud (out s) @ [WriteFile geo body]"
    "''Mesh  '' @ dimension (get_dimension s) @ '';'' @ nl \<in> set body"
    by blast
  from read_and_set_new_mesh_result [OF ran(3)]
  have r: "scripts (loud (out s')) = scripts (loud (out s2))"
    "spawned (loud (out s')) = spawned (loud (out s2))"
    by (cases "error_flag s2"; auto simp add: scripts_append spawned_append)+
  from run_gmsh_with_geo_result [OF ran(2)] consider
    (started) bin where "gmsh_bin s1 = Some bin"
      "loud (out s2) = loud (out s1) @ [Popen [bin, ''-'', geo]]"
  | (not_started) bin where "run_gmsh h [bin, ''-'', geo] = NotStarted"
      "loud (out s2) = loud (out s1)"
    using g(1) by auto
  then show ?thesis
  proof cases
    case started
    with g r have "scripts (out s') = scripts (out s) @ [(geo, body)]"
      "spawned (out s') = spawned (out s) @ [[bin, ''-'', geo]]"
      by (simp_all add: observations scripts_append spawned_append)
    with g(3) show ?thesis by blast
  next
    case not_started
    with g r have "scripts (out s') = scripts (out s) @ [(geo, body)]"
      by (simp add: observations scripts_append)
    with g(3) not_started(1) show ?thesis by blast
  qed
qed

text \<open>
  Claim C7, as the code has it. When the dimension is taken from the shape and the
  shape is a vertex or of a type that is not known, \<open>get_dimension\<close> prints a message
  on the error console and sets the dimension to \<open>'0'\<close>; it does not raise. The run
  goes on: whenever \<open>create_mesh\<close> returns, it has written one script, with the
  command \<open>Mesh  0;\<close>, and has started the mesher on it, unless the host could not
  start the process.
\<close>

theorem unmeshable_shape_goes_on:
  assumes "dimension s = ''From Shape''"
    and "ShapeType (part_obj s) \<notin> set [''Solid'', ''CompSolid'', ''Face'', ''Shell'', ''Edge'', ''Wire'', ''Compound'']"
  shows "dimension (get_dimension s) = ''0''
     \<and> out (get_dimension s) = out s @
          [PrintError (if ShapeType (part_obj s) = ''Vertex'' then ''You can not mesh a Vertex.'' @ nl
                       else ''Could not retrive Dimension from shape type. Please choose dimension.'')]
     \<and> (fst (create_mesh h s) = Inr msg \<longrightarrow>
          (\<exists>geo body bin. scripts (out (snd (create_mesh h s))) = scripts (out s) @ [(geo, body)]
             \<and> ''Mesh  0;'' @ nl \<in> set body
             \<and> (spawned (out (snd (create_mesh h s))) = spawned (out s) @ [[bin, ''-'', geo]]
                \<or> run_gmsh h [bin, ''-'', geo] = NotStarted)))"
proof (intro conjI impI)
  note d = get_dimension_unmeshable [OF assms]
  show "dimension (get_dimension s) = ''0''" by (rule d(1))
  show "out (get_dimension s) = out s @
          [PrintError (if ShapeType (part_obj s) = ''Vertex'' then ''You can not mesh a Vertex.'' @ nl
                       else ''Could not retrive Dimension from shape type. Please choose dimension.'')]"
    by (rule d(2))
  assume "fst (create_mesh h s) = Inr msg"
  then have "create_mesh h s = (Inr msg, snd (create_mesh h s))"
    by (cases "create_mesh h s") simp
  from create_mesh_returns [OF this] show "\<exists>geo body bin.
       scripts (out (snd (create_mesh h s))) = scripts (out s) @ [(geo, body)]
       \<and> ''Mesh  0;'' @ nl \<in> set body
       \<and> (spawned (out (snd (create_mesh h s))) = spawned (out s) @ [[bin, ''-'', geo]]
          \<or> run_gmsh h [bin, ''-'', geo] = NotStarted)"
    unfolding d(1) by simp
qed

text \<open>The claim as stated fails: for a vertex the run returns, the script is written
  and the mesher is started on it.\<close>

theorem vertex_run_goes_on:
  "fst vertex_run = Inr [] \<and> dimension (snd vertex_run) = ''0''
   \<and> map fst (scripts (out (snd vertex_run))) = [''/tmp/shape2mesh.geo'']
   \<and> map (\<lambda>(geo, body). ''Mesh  0;'' @ nl \<in> set body) (scripts (out (snd vertex_run))) = [True]
   \<and> spawned (out (snd vertex_run)) = [[''gmsh'', ''-'', ''/tmp/shape2mesh.geo'']]"
  by code_simp


theorem unmeshable_shape_goes_on_witness:
  "dimension (get_dimension (init (box_mesh\<lparr>Part := box\<lparr>ShapeType := ''Vertex''\<rparr>\<rparr>) None)) = ''0''
   \<and> (\<exists>geo body bin. scripts (out (snd vertex_run)) = [(geo, body)]
         \<and> ''Mesh  0;'' @ nl \<in> set body
         \<and> (spawned (out (snd vertex_run)) = [[bin, ''-'', geo]]
            \<or> run_gmsh linux [bin, ''-'', geo] = NotStarted))"
proof -
  let ?s = "init (box_mesh\<lparr>Part := box\<lparr>ShapeType := ''Vertex''\<rparr>\<rparr>) None"
  have 1: "dimension ?s = ''From Shape''"
    by code_simp
  have 2: "ShapeType (part_obj ?s) \<notin> set [''Solid'', ''CompSolid'', ''Face'', ''Shell'', ''Edge'', ''Wire'', ''Compound'']"
    by code_simp
  have 3: "fst (create_mesh linux ?s) = Inr []"
    by code_simp
  have 4: "scripts (out ?s) = []" "spawned (out ?s) = []"
    by code_simp+
  from unmeshable_shape_goes_on [OF 1 2, of linux "[]"] 3 4 show ?thesis
    unfolding vertex_run_def by simp
qed

subsection \<open>A mesher that fails\<close>

lemma create_mesh_not_started:
  assumes n: "run_gmsh h = (\<lambda>_. NotStarted)" and c: "create_mesh h s = (r, s')"
  shows "mesh_obj s' = mesh_obj s \<and> reads (out s') = reads (out s) \<and> r \<noteq> Inr []"
  using c
proof (cases rule: create_mesh_cases)
  case (stopped e)
  from prepare_result [OF stopped(1)] stopped(2) show ?thesis
    by (auto simp add: observations)
next
  case (not_run s1 e)
  from prepare_result [OF not_run(1)] run_gmsh_with_geo_result [OF not_run(2)] not_run(3)
  show ?thesis
    by (auto simp add: observations reads_append)
next
  case (ran s1 s2 msg ro)
  from run_gmsh_with_geo_result [OF ran(2)] n
  have 2: "mesh_obj s2 = mesh_obj s1" "msg \<noteq> []" "error_flag s2" "loud (out s2) = loud (out s1)"
    by auto
  from read_and_set_new_mesh_result [OF ran(3)] 2(3)
  have 3: "mesh_obj s' = mesh_obj s2" "loud (out s') = loud (out s2)"
    by auto
  from prepare_result [OF ran(1)]
  have 1: "mesh_obj s1 = mesh_obj s" "reads (loud (out s1)) = reads (loud (out s))"
    by (auto simp add: reads_append)
  from ran(4) 2(2) have "r \<noteq> Inr []"
    by (cases ro) auto
  with 1 2 3 show ?thesis
    by (simp add: observations)
qed

text \<open>
  Claim C6, as the code has it. When the mesher cannot be started, \<open>create_mesh\<close>
  reads no mesh, leaves \<open>FemMesh\<close> as it was and reports the failure: it raises or
  returns a message that is not empty. When the process starts, \<open>run_gmsh_with_geo\<close>
  returns its standard error and leaves the error flag unset whatever the exit code
  is; with the flag unset \<open>read_and_set_new_mesh\<close> reads the output file and stores
  the mesh, and with the flag set it reads nothing and leaves the mesh object as it is.
\<close>

theorem process_not_started:
  "(run_gmsh h = (\<lambda>_. NotStarted) \<longrightarrow>
      FemMesh (mesh_obj (snd (create_mesh h s))) = FemMesh (mesh_obj s)
      \<and> reads (out (snd (create_mesh h s))) = reads (out s)
      \<and> fst (create_mesh h s) \<noteq> Inr [])
   \<and> (gmsh_bin s = Some bin \<and> temp_file_geo s = Some geo
        \<and> run_gmsh h [bin, ''-'', geo] = Exited rc so se \<longrightarrow>
      fst (run_gmsh_with_geo h s) = Inr se \<and> \<not> error_flag (snd (run_gmsh_with_geo h s)))
   \<and> (\<not> error_flag s \<and> temp_file_mesh s = Some f \<and> Fem_read h f = Inr m \<longrightarrow>
      FemMesh (mesh_obj (snd (read_and_set_new_mesh h s))) = m
      \<and> reads (out (snd (read_and_set_new_mesh h s))) = reads (out s) @ [f])
   \<and> (error_flag s \<longrightarrow>
      mesh_obj (snd (read_and_set_new_mesh h s)) = mesh_obj s
      \<and> reads (out (snd (read_and_set_new_mesh h s))) = reads (out s))"
proof (intro conjI impI)
  assume n: "run_gmsh h = (\<lambda>_. NotStarted)"
  have "create_mesh h s = (fst (create_mesh h s), snd (create_mesh h s))"
    by simp
  note r = create_mesh_not_started [OF n this]
  from r show "FemMesh (mesh_obj (snd (create_mesh h s))) = FemMesh (mesh_obj s)" by simp
  from r show "reads (out (snd (create_mesh h s))) = reads (out s)" by simp
  from r show "fst (create_mesh h s) \<noteq> Inr []" by simp
next
  assume "gmsh_bin s = Some bin \<and> temp_file_geo s = Some geo
        \<and> run_gmsh h [bin, ''-'', geo] = Exited rc so se"
  then show "fst (run_gmsh_with_geo h s) = Inr se" "\<not> error_flag (snd (run_gmsh_with_geo h s))"
    by (simp_all add: run_gmsh_with_geo_def Let_def attr_def emit_def)
next
  assume a: "\<not> error_flag s \<and> temp_file_mesh s = Some f \<and> Fem_read h f = Inr m"
  then have "mesh_obj (snd (read_and_set_new_mesh h s)) = (mesh_obj s)\<lparr>FemMesh := m\<rparr>"
    "loud (out (snd (read_and_set_new_mesh h s))) = loud (out s) @ [FemRead f]"
    by (simp_all add: read_and_set_new_mesh_def Let_def attr_def emit_def loud_def
        split: option.splits)
  then show "FemMesh (mesh_obj (snd (read_and_set_new_mesh h s))) = m"
    "reads (out (snd (read_and_set_new_mesh h s))) = reads (out s) @ [f]"
    by (simp_all add: observations reads_append)
next
  assume a: "error_flag s"
  obtain r s2 where e: "read_and_set_new_mesh h s = (r, s2)"
    by (cases "read_and_set_new_mesh h s")
  from read_and_set_new_mesh_result [OF e] a e
  show "mesh_obj (snd (read_and_set_new_mesh h s)) = mesh_obj s"
    "reads (out (snd (read_and_set_new_mesh h s))) = reads (out s)"
    by (simp_all add: observations)
qed

theorem process_not_started_witness:
  "FemMesh (mesh_obj (snd (create_mesh missing (init box_mesh None)))) = ''old mesh''
   \<and> reads (out (snd (create_mesh missing (init box_mesh None)))) = []
   \<and> fst (create_mesh missing (init box_mesh None)) \<noteq> Inr []"
proof -
  have n: "run_gmsh missing = (\<lambda>_. NotStarted)"
    by (simp add: missing_def)
  have "FemMesh (mesh_obj (init box_mesh None)) = ''old mesh''" "reads (out (init box_mesh None)) = []"
    by code_simp+
  with process_not_started [of missing "init box_mesh None"] n show ?thesis
    by simp
qed

text \<open>The claim as stated fails: after exit code 1 the output file is read and
  replaces the old mesh.\<close>

theorem nonzero_exit_mesh_is_read:
  "run_gmsh failing [''gmsh'', ''-'', ''/tmp/shape2mesh.geo'']
     = Exited 1 [] ''Error   : Self intersecting surface mesh''
   \<and> FemMesh (mesh_obj (init box_mesh None)) = ''old mesh''
   \<and> FemMesh (mesh_obj (snd failed_run)) = ''new mesh''
   \<and> reads (out (snd failed_run)) = [''/tmp/Box_Mesh_TmpGmsh.unv'']
   \<and> spawned (out (snd failed_run)) = [[''gmsh'', ''-'', ''/tmp/shape2mesh.geo'']]"
  by code_simp

subsection \<open>The output format around an export\<close>

lemma export_body_format:
  "OutputFormat (mesh_obj (snd (export_body h output_format output_filestring s))) = output_format"
proof -
  let ?s0 = "s\<lparr>mesh_obj := (mesh_obj s)\<lparr>OutputFormat := output_format\<rparr>\<rparr>"
  obtain r s1 where p: "prepare h True ?s0 = (r, s1)"
    by (cases "prepare h True ?s0")
  from prepare_result [OF p] have 1: "mesh_obj s1 = mesh_obj ?s0" by simp
  show ?thesis
  proof (cases r)
    case (Some e)
    with p 1 show ?thesis by (simp add: export_body_def andthen_def)
  next
    case None
    obtain r2 s2 where g: "run_gmsh_with_geo h s1 = (r2, s2)"
      by (cases "run_gmsh_with_geo h s1")
    from run_gmsh_with_geo_result [OF g] have 2: "mesh_obj s2 = mesh_obj s1" by simp
    from p None g 1 2 show ?thesis
      by (auto simp add: export_body_def andthen_def emit_def attr_def
          split: sum.splits option.splits)
  qed
qed

text \<open>
  Claim C9. After \<open>export_mesh\<close>, whether it returned or raised, and for every
  requested format, the field \<open>OutputFormat\<close> of the mesh object has the value it had
  before the call; the body of the \<open>try\<close> block leaves the requested format there.
\<close>

theorem export_mesh_restores_OutputFormat:
  "OutputFormat (mesh_obj (snd (export_mesh h output_format output_filestring scaling s)))
     = OutputFormat (mesh_obj s)
   \<and> OutputFormat (mesh_obj (snd (export_body h output_format output_filestring s))) = output_format"
  by (simp add: export_mesh_def Let_def export_body_format)

text \<open>An export to the unsupported format \<open>VTK\<close> raises \<open>KeyError\<close> in
  \<open>get_tmp_file_paths\<close>, and the format is \<open>I-Deas universal\<close> again afterwards.\<close>

theorem export_unsupported_format:
  "fst (export_mesh linux ''VTK'' None False (init box_mesh None)) = Inl (KeyError ''VTK'')
   \<and> OutputFormat (mesh_obj (snd (export_body linux ''VTK'' None (init box_mesh None)))) = ''VTK''
   \<and> OutputFormat (mesh_obj (snd (export_mesh linux ''VTK'' None False (init box_mesh None))))
       = ''I-Deas universal''"
proof -
  have "fst (export_mesh linux ''VTK'' None False (init box_mesh None)) = Inl (KeyError ''VTK'')"
    "OutputFormat (mesh_obj (init box_mesh None)) = ''I-Deas universal''"
    by code_simp+
  with export_mesh_restores_OutputFormat [of linux "''VTK''" None False "init box_mesh None"]
  show ?thesis by simp
qed

end
